theory Spec2Isabelle
  imports Main "HOL-Library.Word"
begin

unbundle bit_operations_syntax

section \<open>Data model of the transaction pool (txpool/pool.go)\<close>

text \<open>
  Go's \<open>uint64\<close> is \<open>64 word\<close>, \<open>uint8\<close> is \<open>8 word\<close>, \<open>uint256.Int\<close> is
  \<open>256 word\<close>; their arithmetic wraps around.  Go's \<open>int\<close> (slice indices, counts,
  limits) is \<open>int\<close>.  A pointer \<open>*metaTx\<close> is an address into an explicit store of
  \<open>metaTx\<close> objects, because the same object is shared by the nonce index, the
  \<open>byHash\<close> map and the queues of its sub-pool and is mutated in place.
\<close>

type_synonym u64 = "64 word"
type_synonym u256 = "256 word"
type_synonym bytes = "8 word list"

text \<open>\<open>SubPoolMarker\<close> and its bits (pool.go, lines 116-134).\<close>

type_synonym SubPoolMarker = "8 word"

definition EnoughFeeCapProtocol :: SubPoolMarker where "EnoughFeeCapProtocol = 32"
definition NoNonceGaps :: SubPoolMarker where "NoNonceGaps = 16"
definition EnoughBalance :: SubPoolMarker where "EnoughBalance = 8"
definition NotTooMuchGas :: SubPoolMarker where "NotTooMuchGas = 4"
definition EnoughFeeCapBlock :: SubPoolMarker where "EnoughFeeCapBlock = 2"
definition IsLocal :: SubPoolMarker where "IsLocal = 1"

definition BaseFeePoolBits :: SubPoolMarker where
  "BaseFeePoolBits = EnoughFeeCapProtocol + NoNonceGaps + EnoughBalance + NotTooMuchGas"

definition QueuedPoolBits :: SubPoolMarker where
  "QueuedPoolBits = EnoughFeeCapProtocol"

lemmas marker_defs =
  EnoughFeeCapProtocol_def NoNonceGaps_def EnoughBalance_def NotTooMuchGas_def
  EnoughFeeCapBlock_def IsLocal_def BaseFeePoolBits_def QueuedPoolBits_def

text \<open>\<open>DiscardReason\<close> (pool.go, lines 136-161), in the order of its constants 0..21.\<close>

datatype DiscardReason =
    NotSet
  | Success
  | AlreadyKnown
  | Mined
  | ReplacedByHigherTip
  | UnderPriced
  | ReplaceUnderpriced
  | FeeTooLow
  | OversizedData
  | InvalidSender
  | NegativeValue
  | Spammer
  | PendingPoolOverflow
  | BaseFeePoolOverflow
  | QueuedPoolOverflow
  | GasUintOverflow
  | IntrinsicGas
  | RLPTooLong
  | NonceTooLow
  | InsufficientFunds
  | NotReplaced
  | DuplicateHash

text \<open>
  \<open>SubPoolType\<close> (pool.go, lines 234-238) is a \<open>uint8\<close> with the constants 1, 2, 3;
  \<open>NoSubPool\<close> is its zero value, which the code assigns with \<open>currentSubPool = 0\<close>.
\<close>

datatype SubPoolType = NoSubPool | PendingSubPool | BaseFeeSubPool | QueuedSubPool

text \<open>
  \<open>TxSlot\<close>: the fields of the parsed transaction that pool.go reads.  The struct is
  declared in another file of the package; field \<open>value\<close> is spelt \<open>txvalue\<close> here.
\<close>

record TxSlot =
  nonce :: u64
  tip :: u64
  feeCap :: u64
  gas :: u64
  txvalue :: u256
  IdHash :: bytes
  senderID :: u64
  traced :: bool
  creation :: bool
  dataLen :: int
  dataNonZeroLen :: int
  rlp :: "bytes option"

text \<open>\<open>metaTx\<close> (pool.go, lines 212-224); \<open>Tx\<close> is the slot the pointer refers to.\<close>

record metaTx =
  Tx :: TxSlot
  subPool :: SubPoolMarker
  nonceDistance :: u64
  cumulativeBalanceDistance :: u64
  minFeeCap :: u64
  minTip :: u64
  bestIndex :: int
  worstIndex :: int
  currentSubPool :: SubPoolType
  timestamp :: u64

text \<open>The helper \<open>min\<close> of pool.go (lines 2275-2280).\<close>

definition min64 :: "u64 \<Rightarrow> u64 \<Rightarrow> u64" where
  "min64 a b = (if a < b then a else b)"

section \<open>The comparators of the queues\<close>

text \<open>
  \<open>effectiveMarker\<close> is the first step of both comparators: the stored marker with
  \<open>EnoughFeeCapBlock\<close> or-ed in when \<open>minFeeCap >= pendingBaseFee\<close>.
\<close>

definition effectiveMarker :: "metaTx \<Rightarrow> u64 \<Rightarrow> SubPoolMarker" where
  "effectiveMarker mt pendingBaseFee =
     (if minFeeCap mt \<ge> pendingBaseFee then subPool mt OR EnoughFeeCapBlock else subPool mt)"

definition effectiveTip :: "metaTx \<Rightarrow> u64 \<Rightarrow> u64" where
  "effectiveTip mt pendingBaseFee =
     (if pendingBaseFee \<le> minFeeCap mt
      then min64 (minFeeCap mt - pendingBaseFee) (minTip mt) else 0)"

text \<open>\<open>metaTx.better\<close> (pool.go, lines 2146-2184).\<close>

definition better :: "metaTx \<Rightarrow> metaTx \<Rightarrow> u64 \<Rightarrow> bool" where
  "better mt than pendingBaseFee =
     (let subPool' = effectiveMarker mt pendingBaseFee;
          thanSubPool = effectiveMarker than pendingBaseFee
      in if subPool' \<noteq> thanSubPool then subPool' > thanSubPool
         else (case currentSubPool mt of
             PendingSubPool \<Rightarrow>
               (if effectiveTip mt pendingBaseFee \<noteq> effectiveTip than pendingBaseFee
                then effectiveTip mt pendingBaseFee > effectiveTip than pendingBaseFee
                else timestamp mt < timestamp than)
           | BaseFeeSubPool \<Rightarrow>
               (if minFeeCap mt \<noteq> minFeeCap than then minFeeCap mt > minFeeCap than
                else timestamp mt < timestamp than)
           | QueuedSubPool \<Rightarrow>
               (if nonceDistance mt \<noteq> nonceDistance than
                then nonceDistance mt < nonceDistance than
                else if cumulativeBalanceDistance mt \<noteq> cumulativeBalanceDistance than
                then cumulativeBalanceDistance mt < cumulativeBalanceDistance than
                else timestamp mt < timestamp than)
           | NoSubPool \<Rightarrow> timestamp mt < timestamp than))"

text \<open>\<open>metaTx.worse\<close> (pool.go, lines 2186-2219).\<close>

definition worse :: "metaTx \<Rightarrow> metaTx \<Rightarrow> u64 \<Rightarrow> bool" where
  "worse mt than pendingBaseFee =
     (let subPool' = effectiveMarker mt pendingBaseFee;
          thanSubPool = effectiveMarker than pendingBaseFee
      in if subPool' \<noteq> thanSubPool then subPool' < thanSubPool
         else (case currentSubPool mt of
             PendingSubPool \<Rightarrow>
               (if minFeeCap mt \<noteq> minFeeCap than then minFeeCap mt < minFeeCap than
                else if nonceDistance mt \<noteq> nonceDistance than
                then nonceDistance mt > nonceDistance than
                else if cumulativeBalanceDistance mt \<noteq> cumulativeBalanceDistance than
                then cumulativeBalanceDistance mt > cumulativeBalanceDistance than
                else timestamp mt > timestamp than)
           | BaseFeeSubPool \<Rightarrow>
               (if nonceDistance mt \<noteq> nonceDistance than
                then nonceDistance mt > nonceDistance than
                else if cumulativeBalanceDistance mt \<noteq> cumulativeBalanceDistance than
                then cumulativeBalanceDistance mt > cumulativeBalanceDistance than
                else timestamp mt > timestamp than)
           | QueuedSubPool \<Rightarrow>
               (if nonceDistance mt \<noteq> nonceDistance than
                then nonceDistance mt > nonceDistance than
                else if cumulativeBalanceDistance mt \<noteq> cumulativeBalanceDistance than
                then cumulativeBalanceDistance mt > cumulativeBalanceDistance than
                else timestamp mt > timestamp than)
           | NoSubPool \<Rightarrow> timestamp mt > timestamp than))"

section \<open>Example values\<close>

text \<open>
  A plain transfer slot (no data, gas 21000) with the given hash, sender, nonce, fee cap and
  tip, and a \<open>metaTx\<close> around a slot; they are the concrete inputs of the examples below.
\<close>

definition exampleTx :: "bytes \<Rightarrow> u64 \<Rightarrow> u64 \<Rightarrow> u64 \<Rightarrow> u64 \<Rightarrow> TxSlot" where
  "exampleTx h sid n fc tp =
     \<lparr>nonce = n, tip = tp, feeCap = fc, gas = 21000, txvalue = 0, IdHash = h,
      TxSlot.senderID = sid, traced = False, creation = False, dataLen = 0,
      dataNonZeroLen = 0, rlp = Some [1]\<rparr>"

definition exampleMeta :: "TxSlot \<Rightarrow> SubPoolMarker \<Rightarrow> u64 \<Rightarrow> u64 \<Rightarrow> int \<Rightarrow> int \<Rightarrow> SubPoolType \<Rightarrow> metaTx" where
  "exampleMeta slot marker fc tp bi wi sp =
     \<lparr>Tx = slot, subPool = marker, nonceDistance = 0, cumulativeBalanceDistance = 0,
      minFeeCap = fc, minTip = tp, bestIndex = bi, worstIndex = wi, currentSubPool = sp,
      timestamp = 0\<rparr>"

section \<open>Properties of the comparators\<close>

lemma better_irrefl: "\<not> better a a f"
  by (simp add: better_def split: SubPoolType.split)

lemma worse_irrefl: "\<not> worse a a f"
  by (simp add: worse_def split: SubPoolType.split)

lemma better_asym:
  "currentSubPool a = currentSubPool b \<Longrightarrow> better a b f \<Longrightarrow> \<not> better b a f"
  by (cases "currentSubPool b") (auto simp: better_def Let_def split: if_splits)

lemma worse_asym:
  "currentSubPool a = currentSubPool b \<Longrightarrow> worse a b f \<Longrightarrow> \<not> worse b a f"
  by (cases "currentSubPool b") (auto simp: worse_def Let_def split: if_splits)

lemma better_trans:
  "currentSubPool a = currentSubPool b \<Longrightarrow> better a b f \<Longrightarrow> better b c f \<Longrightarrow> better a c f"
  by (cases "currentSubPool b") (auto simp: better_def Let_def split: if_splits)

lemma worse_trans:
  "currentSubPool a = currentSubPool b \<Longrightarrow> worse a b f \<Longrightarrow> worse b c f \<Longrightarrow> worse a c f"
  by (cases "currentSubPool b") (auto simp: worse_def Let_def split: if_splits)

text \<open>
  C10.  For every pending base fee \<open>f\<close>, \<open>better\<close> and \<open>worse\<close> are irreflexive, and on
  \<open>metaTx\<close> values with the same \<open>currentSubPool\<close> they are asymmetric (neither
  \<open>better a b\<close> and \<open>better b a\<close> nor \<open>worse a b\<close> and \<open>worse b a\<close> hold together) and
  transitive: they are strict orders.
\<close>

theorem comparators_strict:
  "\<not> better a a f \<and> \<not> worse a a f \<and>
   (currentSubPool a = currentSubPool b \<longrightarrow>
      \<not> (better a b f \<and> better b a f) \<and> \<not> (worse a b f \<and> worse b a f) \<and>
      (better a b f \<and> better b c f \<longrightarrow> better a c f) \<and>
      (worse a b f \<and> worse b c f \<longrightarrow> worse a c f))"
  using better_irrefl worse_irrefl better_asym worse_asym better_trans worse_trans by blast

text \<open>
  Three pending transactions of decreasing fee cap and tip at base fee 10: each is better
  than the next and the next is worse than it, in one direction only.
\<close>

theorem comparators_strict_witness:
  "currentSubPool (exampleMeta (exampleTx [1] 1 0 100 5) 60 100 5 0 0 PendingSubPool) =
     currentSubPool (exampleMeta (exampleTx [2] 2 0 50 3) 60 50 3 1 1 PendingSubPool) \<and>
   better (exampleMeta (exampleTx [1] 1 0 100 5) 60 100 5 0 0 PendingSubPool)
          (exampleMeta (exampleTx [2] 2 0 50 3) 60 50 3 1 1 PendingSubPool) 10 \<and>
   better (exampleMeta (exampleTx [2] 2 0 50 3) 60 50 3 1 1 PendingSubPool)
          (exampleMeta (exampleTx [3] 3 0 20 1) 60 20 1 2 2 PendingSubPool) 10 \<and>
   better (exampleMeta (exampleTx [1] 1 0 100 5) 60 100 5 0 0 PendingSubPool)
          (exampleMeta (exampleTx [3] 3 0 20 1) 60 20 1 2 2 PendingSubPool) 10 \<and>
   \<not> better (exampleMeta (exampleTx [2] 2 0 50 3) 60 50 3 1 1 PendingSubPool)
            (exampleMeta (exampleTx [1] 1 0 100 5) 60 100 5 0 0 PendingSubPool) 10 \<and>
   \<not> worse (exampleMeta (exampleTx [1] 1 0 100 5) 60 100 5 0 0 PendingSubPool)
           (exampleMeta (exampleTx [2] 2 0 50 3) 60 50 3 1 1 PendingSubPool) 10"
  using comparators_strict
    [of "exampleMeta (exampleTx [1] 1 0 100 5) 60 100 5 0 0 PendingSubPool" 10
        "exampleMeta (exampleTx [2] 2 0 50 3) 60 50 3 1 1 PendingSubPool"
        "exampleMeta (exampleTx [3] 3 0 20 1) 60 20 1 2 2 PendingSubPool"]
  by (simp add: exampleMeta_def better_def worse_def effectiveMarker_def effectiveTip_def
      min64_def marker_defs)


section \<open>Pointers, the object store and panics\<close>

text \<open>
  A \<open>*metaTx\<close> is an address; \<open>store\<close> maps addresses to objects.  A run-time panic
  of Go (index out of range, nil dereference, an explicit \<open>panic\<close>) and a returned
  \<open>error\<close> are values of \<open>failure\<close>; a function that can fail returns
  \<open>failure + result\<close>.
\<close>

type_synonym ptr = nat
type_synonym store = "ptr \<Rightarrow> metaTx"

datatype failure =
    PanicIndexOutOfRange
  | PanicNilDereference
  | PanicMustNotHappen
  | ReturnedError string

text \<open>Sequencing of fallible steps: the first failure is the result.\<close>

definition bindF :: "failure + 'a \<Rightarrow> ('a \<Rightarrow> failure + 'b) \<Rightarrow> failure + 'b" where
  "bindF r f = (case r of Inl e \<Rightarrow> Inl e | Inr x \<Rightarrow> f x)"

section \<open>The queues: \<open>BestQueue\<close>, \<open>WorstQueue\<close>, \<open>bestSlice\<close> and container/heap\<close>

text \<open>
  A queue is a slice of pointers; \<open>BestQueue\<close> and \<open>bestSlice\<close> keep the position of
  each element in its \<open>bestIndex\<close>, \<open>WorstQueue\<close> in its \<open>worstIndex\<close>.  The queue
  methods \<open>Less\<close>, \<open>Swap\<close>, \<open>Push\<close>, \<open>Pop\<close> (pool.go, lines 2221-2273 and 1988-2003)
  are written once, for both kinds.
\<close>

datatype queue_kind = BestQ | WorstQ

definition set_ix :: "queue_kind \<Rightarrow> int \<Rightarrow> metaTx \<Rightarrow> metaTx" where
  "set_ix k i m = (case k of BestQ \<Rightarrow> m\<lparr>bestIndex := i\<rparr> | WorstQ \<Rightarrow> m\<lparr>worstIndex := i\<rparr>)"

definition get_ix :: "queue_kind \<Rightarrow> metaTx \<Rightarrow> int" where
  "get_ix k m = (case k of BestQ \<Rightarrow> bestIndex m | WorstQ \<Rightarrow> worstIndex m)"

text \<open>\<open>BestQueue.Less\<close> is \<open>better\<close>, \<open>WorstQueue.Less\<close> is \<open>worse\<close>, at the queue's base fee.\<close>

definition Less :: "queue_kind \<Rightarrow> u64 \<Rightarrow> metaTx \<Rightarrow> metaTx \<Rightarrow> bool" where
  "Less k f a b = (case k of BestQ \<Rightarrow> better a b f | WorstQ \<Rightarrow> worse a b f)"

text \<open>
  \<open>Swap(i, j)\<close>: exchange the two slots, then store the new positions in the objects.
  The indices are in range wherever the functions below call it.
\<close>

definition Swap :: "queue_kind \<Rightarrow> nat \<Rightarrow> nat \<Rightarrow> store \<times> ptr list \<Rightarrow> store \<times> ptr list" where
  "Swap k i j q =
     (let \<sigma> = fst q; ms = snd q;
          ms' = ms[i := ms ! j, j := ms ! i];
          \<sigma>1 = \<sigma>(ms' ! i := set_ix k (int i) (\<sigma> (ms' ! i)));
          \<sigma>2 = \<sigma>1(ms' ! j := set_ix k (int j) (\<sigma>1 (ms' ! j)))
      in (\<sigma>2, ms'))"

text \<open>\<open>Push(x)\<close> of a queue: record the position, append.\<close>

definition qPush :: "queue_kind \<Rightarrow> ptr \<Rightarrow> store \<times> ptr list \<Rightarrow> store \<times> ptr list" where
  "qPush k x q =
     (let \<sigma> = fst q; ms = snd q
      in (\<sigma>(x := set_ix k (int (length ms)) (\<sigma> x)), ms @ [x]))"

text \<open>
  \<open>Pop()\<close> of a queue: take the last slot, set its index to -1 and its
  \<open>currentSubPool\<close> to 0.  On an empty slice \<open>old[n-1]\<close> panics.
\<close>

definition qPop :: "queue_kind \<Rightarrow> store \<times> ptr list \<Rightarrow> failure + (ptr \<times> (store \<times> ptr list))" where
  "qPop k q =
     (let \<sigma> = fst q; ms = snd q
      in if ms = [] then Inl PanicIndexOutOfRange
         else let item = last ms
              in Inr (item,
                      (\<sigma>(item := (set_ix k (- 1) (\<sigma> item))\<lparr>currentSubPool := NoSubPool\<rparr>),
                       butlast ms)))"

subsection \<open>Go's container/heap\<close>

text \<open>
  The standard library's \<open>up\<close>, \<open>down\<close>, \<open>Init\<close>, \<open>Push\<close>, \<open>Pop\<close>, \<open>Remove\<close> and
  \<open>Fix\<close>, transcribed.  \<open>up\<close> computes the parent as \<open>(j - 1) / 2\<close>, which Go truncates
  to 0 for \<open>j = 0\<close>, as the subtraction on \<open>nat\<close> does.
\<close>

function heap_up :: "queue_kind \<Rightarrow> u64 \<Rightarrow> nat \<Rightarrow> store \<times> ptr list \<Rightarrow> store \<times> ptr list" where
  "heap_up k f j q =
     (let i = (j - 1) div 2
      in if i = j \<or> \<not> Less k f (fst q (snd q ! j)) (fst q (snd q ! i)) then q
         else heap_up k f i (Swap k i j q))"
  by pat_completeness auto
termination
  by (relation "measure (\<lambda>(k, f, j, q). j)") auto

text \<open>
  \<open>down_loop\<close> is the loop of \<open>down\<close> and returns the final position \<open>i\<close>;
  \<open>heap_down\<close> adds the result \<open>i > i0\<close>.
\<close>

function down_loop :: "queue_kind \<Rightarrow> u64 \<Rightarrow> nat \<Rightarrow> nat \<Rightarrow> store \<times> ptr list \<Rightarrow> (store \<times> ptr list) \<times> nat" where
  "down_loop k f i n q =
     (let j1 = 2 * i + 1
      in if j1 \<ge> n then (q, i)
         else let j = (if j1 + 1 < n \<and> Less k f (fst q (snd q ! (j1 + 1))) (fst q (snd q ! j1))
                       then j1 + 1 else j1)
              in if \<not> Less k f (fst q (snd q ! j)) (fst q (snd q ! i)) then (q, i)
                 else down_loop k f j n (Swap k i j q))"
  by pat_completeness auto
termination
  by (relation "measure (\<lambda>(k, f, i, n, q). n - i)") (auto split: if_splits)

declare heap_up.simps [simp del] down_loop.simps [simp del]

definition heap_down :: "queue_kind \<Rightarrow> u64 \<Rightarrow> nat \<Rightarrow> nat \<Rightarrow> store \<times> ptr list \<Rightarrow> (store \<times> ptr list) \<times> bool" where
  "heap_down k f i0 n q = (let r = down_loop k f i0 n q in (fst r, snd r > i0))"

text \<open>\<open>heap.Init\<close>: \<open>down(h, i, n)\<close> for \<open>i = n/2 - 1\<close> down to 0.\<close>

definition heap_Init :: "queue_kind \<Rightarrow> u64 \<Rightarrow> store \<times> ptr list \<Rightarrow> store \<times> ptr list" where
  "heap_Init k f q =
     (let n = length (snd q)
      in fold (\<lambda>i q'. fst (heap_down k f i n q')) (rev [0..<n div 2]) q)"

text \<open>\<open>heap.Push\<close>: \<open>h.Push(x); up(h, h.Len()-1)\<close>.\<close>

definition heap_Push :: "queue_kind \<Rightarrow> u64 \<Rightarrow> ptr \<Rightarrow> store \<times> ptr list \<Rightarrow> store \<times> ptr list" where
  "heap_Push k f x q = (let q1 = qPush k x q in heap_up k f (length (snd q1) - 1) q1)"

text \<open>
  \<open>heap.Pop\<close>: \<open>n := h.Len() - 1; h.Swap(0, n); down(h, 0, n); return h.Pop()\<close>.  On an
  empty heap \<open>Swap(0, -1)\<close> panics.
\<close>

definition heap_Pop :: "queue_kind \<Rightarrow> u64 \<Rightarrow> store \<times> ptr list \<Rightarrow> failure + (ptr \<times> (store \<times> ptr list))" where
  "heap_Pop k f q =
     (if snd q = [] then Inl PanicIndexOutOfRange
      else let n = length (snd q) - 1
           in qPop k (fst (heap_down k f 0 n (Swap k 0 n q))))"

text \<open>
  \<open>heap.Remove(h, i)\<close>: with \<open>n = h.Len() - 1\<close>, if \<open>n != i\<close> then \<open>Swap(i, n)\<close> and
  \<open>if !down(h, i, n) { up(h, i) }\<close>; then \<open>h.Pop()\<close>.  An index outside \<open>0..n\<close> panics:
  in \<open>Swap\<close> when \<open>i != n\<close>, in \<open>Pop\<close> when \<open>i = n = -1\<close>.
\<close>

definition heap_Remove :: "queue_kind \<Rightarrow> u64 \<Rightarrow> int \<Rightarrow> store \<times> ptr list \<Rightarrow> failure + (ptr \<times> (store \<times> ptr list))" where
  "heap_Remove k f i q =
     (if i < 0 \<or> i \<ge> int (length (snd q)) then Inl PanicIndexOutOfRange
      else let n = length (snd q) - 1
           in if n \<noteq> nat i
              then (let r = heap_down k f (nat i) n (Swap k (nat i) n q)
                    in qPop k (if snd r then fst r else heap_up k f (nat i) (fst r)))
              else qPop k q)"

text \<open>
  \<open>heap.Fix(h, i)\<close>: \<open>if !down(h, i, h.Len()) { up(h, i) }\<close>.  For \<open>i = -1\<close>, and for
  \<open>i = 0\<close> on an empty heap, both loops stop at once and nothing happens; any other
  index outside the slice panics in \<open>Less\<close>.
\<close>

definition heap_Fix :: "queue_kind \<Rightarrow> u64 \<Rightarrow> int \<Rightarrow> store \<times> ptr list \<Rightarrow> failure + (store \<times> ptr list)" where
  "heap_Fix k f i q =
     (if i = - 1 \<or> (i = 0 \<and> snd q = []) then Inr q
      else if i < 0 \<or> i \<ge> int (length (snd q)) then Inl PanicIndexOutOfRange
      else let r = heap_down k f (nat i) (length (snd q)) q
           in Inr (if snd r then fst r else heap_up k f (nat i) (fst r)))"


section \<open>The sub-pools\<close>

text \<open>
  \<open>bestSlice\<close>, \<open>BestQueue\<close> and \<open>WorstQueue\<close> (pool.go, lines 1983-1986, 2141-2144,
  2246-2249): the slice of pointers and the base fee their comparator uses.
\<close>

record bestSlice =
  ms :: "ptr list"
  pendingBaseFee :: u64

record BestQueue =
  ms :: "ptr list"
  pendingBastFee :: u64

record WorstQueue =
  ms :: "ptr list"
  pendingBaseFee :: u64

text \<open>
  \<open>PendingPool\<close> (pool.go, lines 1958-1965) and \<open>SubPool\<close> (lines 2059-2066).
  \<open>added\<close> is the list of id hashes (Go keeps them concatenated in one byte slice).
\<close>

record PendingPool =
  limit :: int
  t :: SubPoolType
  best :: bestSlice
  worst :: WorstQueue
  adding :: bool
  added :: "bytes list"

record SubPool =
  limit :: int
  t :: SubPoolType
  best :: BestQueue
  worst :: WorstQueue
  adding :: bool
  added :: "bytes list"



subsection \<open>\<open>bestSlice\<close> (pool.go, lines 1988-2003)\<close>

text \<open>
  \<open>UnsafeRemove(i)\<close>: \<open>Swap(i.bestIndex, len-1)\<close>, which panics unless \<open>bestIndex\<close> is a
  position of the slice; then the last slot gets \<open>bestIndex = -1\<close> and is cut off.
\<close>

definition bestSlice_UnsafeRemove :: "ptr \<Rightarrow> store \<times> ptr list \<Rightarrow> failure + (store \<times> ptr list)" where
  "bestSlice_UnsafeRemove i q =
     (let b = bestIndex (fst q i)
      in if b < 0 \<or> b \<ge> int (length (snd q)) then Inl PanicIndexOutOfRange
         else let q1 = Swap BestQ (nat b) (length (snd q) - 1) q;
                  l = last (snd q1)
              in Inr ((fst q1)(l := (fst q1 l)\<lparr>bestIndex := - 1\<rparr>), butlast (snd q1)))"

definition bestSlice_UnsafeAdd :: "ptr \<Rightarrow> store \<times> ptr list \<Rightarrow> store \<times> ptr list" where
  "bestSlice_UnsafeAdd i q =
     ((fst q)(i := (fst q i)\<lparr>bestIndex := int (length (snd q))\<rparr>), snd q @ [i])"

subsection \<open>\<open>PendingPool\<close> (pool.go, lines 1971-2049)\<close>

text \<open>
  Each method takes the store and the pool and returns both.  \<open>Best\<close> and \<open>Worst\<close>
  return \<open>nil\<close> (\<open>None\<close>) on an empty pool.
\<close>

definition PendingPool_resetAddedHashes :: "PendingPool \<Rightarrow> PendingPool" where
  "PendingPool_resetAddedHashes p = p\<lparr>PendingPool.added := [], PendingPool.adding := True\<rparr>"

definition PendingPool_appendAddedHashes :: "bytes list \<Rightarrow> PendingPool \<Rightarrow> bytes list \<times> PendingPool" where
  "PendingPool_appendAddedHashes h p = (h @ PendingPool.added p, p\<lparr>PendingPool.adding := False\<rparr>)"

definition PendingPool_Best :: "PendingPool \<Rightarrow> ptr option" where
  "PendingPool_Best p =
     (case bestSlice.ms (PendingPool.best p) of [] \<Rightarrow> None | x # _ \<Rightarrow> Some x)"

definition PendingPool_Worst :: "PendingPool \<Rightarrow> ptr option" where
  "PendingPool_Worst p =
     (case WorstQueue.ms (PendingPool.worst p) of [] \<Rightarrow> None | x # _ \<Rightarrow> Some x)"

definition PendingPool_Len :: "PendingPool \<Rightarrow> int" where
  "PendingPool_Len p = int (length (bestSlice.ms (PendingPool.best p)))"

definition PendingPool_PopWorst :: "store \<times> PendingPool \<Rightarrow> failure + (ptr \<times> store \<times> PendingPool)" where
  "PendingPool_PopWorst sp =
     (let \<sigma> = fst sp; p = snd sp; w = PendingPool.worst p; b = PendingPool.best p
      in bindF (heap_Pop WorstQ (WorstQueue.pendingBaseFee w) (\<sigma>, WorstQueue.ms w))
           (\<lambda>(i, (\<sigma>1, wms)).
              bindF (bestSlice_UnsafeRemove i (\<sigma>1, bestSlice.ms b))
                (\<lambda>(\<sigma>2, bms).
                   Inr (i, \<sigma>2, p\<lparr>PendingPool.worst := w\<lparr>WorstQueue.ms := wms\<rparr>,
                                  PendingPool.best := b\<lparr>bestSlice.ms := bms\<rparr>\<rparr>))))"

definition PendingPool_Updated :: "ptr \<Rightarrow> store \<times> PendingPool \<Rightarrow> failure + (store \<times> PendingPool)" where
  "PendingPool_Updated mt sp =
     (let \<sigma> = fst sp; p = snd sp; w = PendingPool.worst p
      in bindF (heap_Fix WorstQ (WorstQueue.pendingBaseFee w) (worstIndex (\<sigma> mt)) (\<sigma>, WorstQueue.ms w))
           (\<lambda>(\<sigma>1, wms). Inr (\<sigma>1, p\<lparr>PendingPool.worst := w\<lparr>WorstQueue.ms := wms\<rparr>\<rparr>)))"

definition PendingPool_Remove :: "ptr \<Rightarrow> store \<times> PendingPool \<Rightarrow> failure + (store \<times> PendingPool)" where
  "PendingPool_Remove i sp =
     (let \<sigma> = fst sp; p = snd sp; w = PendingPool.worst p; b = PendingPool.best p
      in bindF (heap_Remove WorstQ (WorstQueue.pendingBaseFee w) (worstIndex (\<sigma> i)) (\<sigma>, WorstQueue.ms w))
           (\<lambda>(x, (\<sigma>1, wms)).
              bindF (bestSlice_UnsafeRemove i (\<sigma>1, bestSlice.ms b))
                (\<lambda>(\<sigma>2, bms).
                   Inr (\<sigma>2, p\<lparr>PendingPool.worst := w\<lparr>WorstQueue.ms := wms\<rparr>,
                               PendingPool.best := b\<lparr>bestSlice.ms := bms\<rparr>\<rparr>))))"

definition PendingPool_Add :: "ptr \<Rightarrow> store \<times> PendingPool \<Rightarrow> store \<times> PendingPool" where
  "PendingPool_Add i sp =
     (let \<sigma> = fst sp; p = snd sp; w = PendingPool.worst p; b = PendingPool.best p;
          added' = (if PendingPool.adding p then PendingPool.added p @ [IdHash (Tx (\<sigma> i))]
                    else PendingPool.added p);
          \<sigma>1 = \<sigma>(i := (\<sigma> i)\<lparr>currentSubPool := PendingPool.t p\<rparr>);
          qw = heap_Push WorstQ (WorstQueue.pendingBaseFee w) i (\<sigma>1, WorstQueue.ms w);
          qb = bestSlice_UnsafeAdd i (fst qw, bestSlice.ms b)
      in (fst qb, p\<lparr>PendingPool.added := added',
                     PendingPool.worst := w\<lparr>WorstQueue.ms := snd qw\<rparr>,
                     PendingPool.best := b\<lparr>bestSlice.ms := snd qb\<rparr>\<rparr>))"

definition PendingPool_EnforceWorstInvariants :: "store \<times> PendingPool \<Rightarrow> store \<times> PendingPool" where
  "PendingPool_EnforceWorstInvariants sp =
     (let \<sigma> = fst sp; p = snd sp; w = PendingPool.worst p;
          qw = heap_Init WorstQ (WorstQueue.pendingBaseFee w) (\<sigma>, WorstQueue.ms w)
      in (fst qw, p\<lparr>PendingPool.worst := w\<lparr>WorstQueue.ms := snd qw\<rparr>\<rparr>))"

text \<open>
  \<open>EnforceBestInvariants\<close> is \<open>sort.Sort(p.best)\<close> of Go's standard library, which
  permutes the slice with \<open>Swap\<close> (so every \<open>bestIndex\<close> follows its element) until no
  element is \<open>better\<close> than one before it, in an order of equal elements it does not
  promise.  Here: an insertion sort by \<open>better\<close>, after which each element's
  \<open>bestIndex\<close> is its position.
\<close>

fun insert_better :: "store \<Rightarrow> u64 \<Rightarrow> ptr \<Rightarrow> ptr list \<Rightarrow> ptr list" where
  "insert_better \<sigma> f x [] = [x]"
| "insert_better \<sigma> f x (y # ys) =
     (if better (\<sigma> y) (\<sigma> x) f \<or> \<not> better (\<sigma> x) (\<sigma> y) f then y # insert_better \<sigma> f x ys
      else x # y # ys)"

definition sort_better :: "store \<Rightarrow> u64 \<Rightarrow> ptr list \<Rightarrow> ptr list" where
  "sort_better \<sigma> f xs = foldl (\<lambda>acc x. insert_better \<sigma> f x acc) [] xs"

fun reindex_best :: "nat \<Rightarrow> ptr list \<Rightarrow> store \<Rightarrow> store" where
  "reindex_best n [] \<sigma> = \<sigma>"
| "reindex_best n (x # xs) \<sigma> = reindex_best (Suc n) xs (\<sigma>(x := (\<sigma> x)\<lparr>bestIndex := int n\<rparr>))"

definition PendingPool_EnforceBestInvariants :: "store \<times> PendingPool \<Rightarrow> store \<times> PendingPool" where
  "PendingPool_EnforceBestInvariants sp =
     (let \<sigma> = fst sp; p = snd sp; b = PendingPool.best p;
          sorted = sort_better \<sigma> (bestSlice.pendingBaseFee b) (bestSlice.ms b)
      in (reindex_best 0 sorted \<sigma>, p\<lparr>PendingPool.best := b\<lparr>bestSlice.ms := sorted\<rparr>\<rparr>))"

subsection \<open>\<open>SubPool\<close> (pool.go, lines 2072-2130)\<close>

definition SubPool_resetAddedHashes :: "SubPool \<Rightarrow> SubPool" where
  "SubPool_resetAddedHashes p = p\<lparr>SubPool.added := [], SubPool.adding := True\<rparr>"

definition SubPool_appendAddedHashes :: "bytes list \<Rightarrow> SubPool \<Rightarrow> bytes list \<times> SubPool" where
  "SubPool_appendAddedHashes h p = (h @ SubPool.added p, p\<lparr>SubPool.adding := False\<rparr>)"

definition SubPool_EnforceInvariants :: "store \<times> SubPool \<Rightarrow> store \<times> SubPool" where
  "SubPool_EnforceInvariants sp =
     (let \<sigma> = fst sp; p = snd sp; w = SubPool.worst p; b = SubPool.best p;
          qw = heap_Init WorstQ (WorstQueue.pendingBaseFee w) (\<sigma>, WorstQueue.ms w);
          qb = heap_Init BestQ (BestQueue.pendingBastFee b) (fst qw, BestQueue.ms b)
      in (fst qb, p\<lparr>SubPool.worst := w\<lparr>WorstQueue.ms := snd qw\<rparr>,
                     SubPool.best := b\<lparr>BestQueue.ms := snd qb\<rparr>\<rparr>))"

definition SubPool_Best :: "SubPool \<Rightarrow> ptr option" where
  "SubPool_Best p = (case BestQueue.ms (SubPool.best p) of [] \<Rightarrow> None | x # _ \<Rightarrow> Some x)"

definition SubPool_Worst :: "SubPool \<Rightarrow> ptr option" where
  "SubPool_Worst p = (case WorstQueue.ms (SubPool.worst p) of [] \<Rightarrow> None | x # _ \<Rightarrow> Some x)"

definition SubPool_Len :: "SubPool \<Rightarrow> int" where
  "SubPool_Len p = int (length (BestQueue.ms (SubPool.best p)))"

definition SubPool_PopBest :: "store \<times> SubPool \<Rightarrow> failure + (ptr \<times> store \<times> SubPool)" where
  "SubPool_PopBest sp =
     (let \<sigma> = fst sp; p = snd sp; w = SubPool.worst p; b = SubPool.best p
      in bindF (heap_Pop BestQ (BestQueue.pendingBastFee b) (\<sigma>, BestQueue.ms b))
           (\<lambda>(i, (\<sigma>1, bms)).
              bindF (heap_Remove WorstQ (WorstQueue.pendingBaseFee w) (worstIndex (\<sigma>1 i)) (\<sigma>1, WorstQueue.ms w))
                (\<lambda>(x, (\<sigma>2, wms)).
                   Inr (i, \<sigma>2, p\<lparr>SubPool.worst := w\<lparr>WorstQueue.ms := wms\<rparr>,
                                  SubPool.best := b\<lparr>BestQueue.ms := bms\<rparr>\<rparr>))))"

definition SubPool_PopWorst :: "store \<times> SubPool \<Rightarrow> failure + (ptr \<times> store \<times> SubPool)" where
  "SubPool_PopWorst sp =
     (let \<sigma> = fst sp; p = snd sp; w = SubPool.worst p; b = SubPool.best p
      in bindF (heap_Pop WorstQ (WorstQueue.pendingBaseFee w) (\<sigma>, WorstQueue.ms w))
           (\<lambda>(i, (\<sigma>1, wms)).
              bindF (heap_Remove BestQ (BestQueue.pendingBastFee b) (bestIndex (\<sigma>1 i)) (\<sigma>1, BestQueue.ms b))
                (\<lambda>(x, (\<sigma>2, bms)).
                   Inr (i, \<sigma>2, p\<lparr>SubPool.worst := w\<lparr>WorstQueue.ms := wms\<rparr>,
                                  SubPool.best := b\<lparr>BestQueue.ms := bms\<rparr>\<rparr>))))"

definition SubPool_Add :: "ptr \<Rightarrow> store \<times> SubPool \<Rightarrow> store \<times> SubPool" where
  "SubPool_Add i sp =
     (let \<sigma> = fst sp; p = snd sp; w = SubPool.worst p; b = SubPool.best p;
          added' = (if SubPool.adding p then SubPool.added p @ [IdHash (Tx (\<sigma> i))]
                    else SubPool.added p);
          \<sigma>1 = \<sigma>(i := (\<sigma> i)\<lparr>currentSubPool := SubPool.t p\<rparr>);
          qb = heap_Push BestQ (BestQueue.pendingBastFee b) i (\<sigma>1, BestQueue.ms b);
          qw = heap_Push WorstQ (WorstQueue.pendingBaseFee w) i (fst qb, WorstQueue.ms w)
      in (fst qw, p\<lparr>SubPool.added := added',
                     SubPool.worst := w\<lparr>WorstQueue.ms := snd qw\<rparr>,
                     SubPool.best := b\<lparr>BestQueue.ms := snd qb\<rparr>\<rparr>))"

definition SubPool_Remove :: "ptr \<Rightarrow> store \<times> SubPool \<Rightarrow> failure + (store \<times> SubPool)" where
  "SubPool_Remove i sp =
     (let \<sigma> = fst sp; p = snd sp; w = SubPool.worst p; b = SubPool.best p
      in bindF (heap_Remove BestQ (BestQueue.pendingBastFee b) (bestIndex (\<sigma> i)) (\<sigma>, BestQueue.ms b))
           (\<lambda>(x, (\<sigma>1, bms)).
              bindF (heap_Remove WorstQ (WorstQueue.pendingBaseFee w) (worstIndex (\<sigma>1 i)) (\<sigma>1, WorstQueue.ms w))
                (\<lambda>(y, (\<sigma>2, wms)).
                   Inr (\<sigma>2(i := (\<sigma>2 i)\<lparr>currentSubPool := NoSubPool\<rparr>),
                        p\<lparr>SubPool.worst := w\<lparr>WorstQueue.ms := wms\<rparr>,
                          SubPool.best := b\<lparr>BestQueue.ms := bms\<rparr>\<rparr>))))"

definition SubPool_Updated :: "ptr \<Rightarrow> store \<times> SubPool \<Rightarrow> failure + (store \<times> SubPool)" where
  "SubPool_Updated i sp =
     (let \<sigma> = fst sp; p = snd sp; w = SubPool.worst p; b = SubPool.best p
      in bindF (heap_Fix BestQ (BestQueue.pendingBastFee b) (bestIndex (\<sigma> i)) (\<sigma>, BestQueue.ms b))
           (\<lambda>(\<sigma>1, bms).
              bindF (heap_Fix WorstQ (WorstQueue.pendingBaseFee w) (worstIndex (\<sigma>1 i)) (\<sigma>1, WorstQueue.ms w))
                (\<lambda>(\<sigma>2, wms).
                   Inr (\<sigma>2, p\<lparr>SubPool.worst := w\<lparr>WorstQueue.ms := wms\<rparr>,
                               SubPool.best := b\<lparr>BestQueue.ms := bms\<rparr>\<rparr>))))"


section \<open>The nonce index \<open>BySenderAndNonce\<close> (pool.go, lines 1851-1953)\<close>

text \<open>
  The B-tree of the library holds one item per key \<open>(senderID, nonce)\<close>, ordered by
  \<open>sortByNonce.Less\<close>; it is the list of its items in ascending order, each with the key
  it was inserted under (the key fields of a pooled \<open>TxSlot\<close> never change).
  \<open>senderIDTxnCount\<close> is the side map of counts; a missing key reads as 0.
\<close>

type_synonym nonce_key = "u64 \<times> u64"

definition sortByNonce_Less :: "nonce_key \<Rightarrow> nonce_key \<Rightarrow> bool" where
  "sortByNonce_Less a b = (if fst a \<noteq> fst b then fst a < fst b else snd a < snd b)"

record BySenderAndNonce =
  tree :: "(nonce_key \<times> ptr) list"
  senderIDTxnCount :: "u64 \<rightharpoonup> int"

definition key_of :: "metaTx \<Rightarrow> nonce_key" where
  "key_of m = (TxSlot.senderID (Tx m), TxSlot.nonce (Tx m))"

text \<open>The library's \<open>Get\<close>, \<open>ReplaceOrInsert\<close> and \<open>Delete\<close> on the ordered list.\<close>

fun tree_Get :: "nonce_key \<Rightarrow> (nonce_key \<times> ptr) list \<Rightarrow> ptr option" where
  "tree_Get k [] = None"
| "tree_Get k ((k', p) # xs) =
     (if sortByNonce_Less k' k then tree_Get k xs
      else if sortByNonce_Less k k' then None else Some p)"

fun tree_ReplaceOrInsert :: "nonce_key \<Rightarrow> ptr \<Rightarrow> (nonce_key \<times> ptr) list \<Rightarrow> ptr option \<times> (nonce_key \<times> ptr) list" where
  "tree_ReplaceOrInsert k p [] = (None, [(k, p)])"
| "tree_ReplaceOrInsert k p ((k', p') # xs) =
     (if sortByNonce_Less k' k
      then (let r = tree_ReplaceOrInsert k p xs in (fst r, (k', p') # snd r))
      else if sortByNonce_Less k k' then (None, (k, p) # (k', p') # xs)
      else (Some p', (k, p) # xs))"

fun tree_Delete :: "nonce_key \<Rightarrow> (nonce_key \<times> ptr) list \<Rightarrow> ptr option \<times> (nonce_key \<times> ptr) list" where
  "tree_Delete k [] = (None, [])"
| "tree_Delete k ((k', p') # xs) =
     (if sortByNonce_Less k' k
      then (let r = tree_Delete k xs in (fst r, (k', p') # snd r))
      else if sortByNonce_Less k k' then (None, (k', p') # xs)
      else (Some p', xs))"

text \<open>
  \<open>ascend(senderID, f)\<close> visits the items from \<open>(senderID, 0)\<close> upwards, \<open>descend\<close> those
  from \<open>(senderID, MaxUint64)\<close> downwards, while the sender is \<open>senderID\<close> and \<open>f\<close>
  returns true.  \<open>ascendList\<close> and \<open>descendList\<close> are the items such a walk can reach;
  the callbacks below stop it early.  No callback changes the tree during the walk.
\<close>

definition ascendList :: "u64 \<Rightarrow> BySenderAndNonce \<Rightarrow> ptr list" where
  "ascendList sid b =
     map snd (takeWhile (\<lambda>e. fst (fst e) = sid)
                (dropWhile (\<lambda>e. sortByNonce_Less (fst e) (sid, 0)) (tree b)))"

definition descendList :: "u64 \<Rightarrow> BySenderAndNonce \<Rightarrow> ptr list" where
  "descendList sid b =
     map snd (takeWhile (\<lambda>e. fst (fst e) = sid)
                (dropWhile (\<lambda>e. sortByNonce_Less (sid, - 1) (fst e)) (rev (tree b))))"

definition BySenderAndNonce_nonce :: "store \<Rightarrow> u64 \<Rightarrow> BySenderAndNonce \<Rightarrow> u64 \<times> bool" where
  "BySenderAndNonce_nonce \<sigma> sid b =
     (case dropWhile (\<lambda>e. sortByNonce_Less (sid, - 1) (fst e)) (rev (tree b)) of
        [] \<Rightarrow> (0, False)
      | e # _ \<Rightarrow> (if TxSlot.senderID (Tx (\<sigma> (snd e))) = sid
                  then (TxSlot.nonce (Tx (\<sigma> (snd e))), True) else (0, False)))"

definition BySenderAndNonce_count :: "u64 \<Rightarrow> BySenderAndNonce \<Rightarrow> int" where
  "BySenderAndNonce_count sid b = (case senderIDTxnCount b sid of None \<Rightarrow> 0 | Some c \<Rightarrow> c)"

definition BySenderAndNonce_hasTxs :: "u64 \<Rightarrow> BySenderAndNonce \<Rightarrow> bool" where
  "BySenderAndNonce_hasTxs sid b = (ascendList sid b \<noteq> [])"

definition BySenderAndNonce_get :: "u64 \<Rightarrow> u64 \<Rightarrow> BySenderAndNonce \<Rightarrow> ptr option" where
  "BySenderAndNonce_get sid txNonce b = tree_Get (sid, txNonce) (tree b)"

definition BySenderAndNonce_delete :: "store \<Rightarrow> ptr \<Rightarrow> BySenderAndNonce \<Rightarrow> BySenderAndNonce" where
  "BySenderAndNonce_delete \<sigma> mt b =
     (let r = tree_Delete (key_of (\<sigma> mt)) (tree b)
      in case fst r of
           None \<Rightarrow> b
         | Some old \<Rightarrow>
             (let sid = TxSlot.senderID (Tx (\<sigma> mt)); c = BySenderAndNonce_count sid b
              in b\<lparr>tree := snd r,
                   senderIDTxnCount :=
                     (if c > 1 then (senderIDTxnCount b)(sid \<mapsto> c - 1)
                      else (senderIDTxnCount b)(sid := None))\<rparr>))"

definition BySenderAndNonce_replaceOrInsert :: "store \<Rightarrow> ptr \<Rightarrow> BySenderAndNonce \<Rightarrow> ptr option \<times> BySenderAndNonce" where
  "BySenderAndNonce_replaceOrInsert \<sigma> mt b =
     (let r = tree_ReplaceOrInsert (key_of (\<sigma> mt)) mt (tree b)
      in case fst r of
           Some old \<Rightarrow> (Some old, b\<lparr>tree := snd r\<rparr>)
         | None \<Rightarrow>
             (let sid = TxSlot.senderID (Tx (\<sigma> mt))
              in (None, b\<lparr>tree := snd r,
                          senderIDTxnCount :=
                            (senderIDTxnCount b)(sid \<mapsto> BySenderAndNonce_count sid b + 1)\<rparr>)))"

section \<open>The LRU caches\<close>

text \<open>
  \<open>simplelru.LRU\<close> of the library: at most \<open>lru_size\<close> entries, most recently used first.
  \<open>Add\<close> of a present key updates it and moves it to the front; \<open>Add\<close> of a new key
  evicts the oldest entry when the cache is over its size; \<open>Get\<close> moves the entry to
  the front; \<open>Contains\<close> does not; \<open>Keys\<close> lists the keys from oldest to newest.
\<close>

record 'v LRU =
  lru_size :: nat
  lru_items :: "(bytes \<times> 'v) list"


definition LRU_Add :: "bytes \<Rightarrow> 'v \<Rightarrow> 'v LRU \<Rightarrow> 'v LRU" where
  "LRU_Add k v c =
     (if k \<in> fst ` set (lru_items c)
      then c\<lparr>lru_items := (k, v) # filter (\<lambda>e. fst e \<noteq> k) (lru_items c)\<rparr>
      else let l = (k, v) # lru_items c
           in c\<lparr>lru_items := (if length l > lru_size c then butlast l else l)\<rparr>)"

definition LRU_Get :: "bytes \<Rightarrow> 'v LRU \<Rightarrow> 'v option \<times> 'v LRU" where
  "LRU_Get k c =
     (case map_of (lru_items c) k of
        None \<Rightarrow> (None, c)
      | Some v \<Rightarrow> (Some v, c\<lparr>lru_items := (k, v) # filter (\<lambda>e. fst e \<noteq> k) (lru_items c)\<rparr>))"

definition LRU_Contains :: "bytes \<Rightarrow> 'v LRU \<Rightarrow> bool" where
  "LRU_Contains k c = (k \<in> fst ` set (lru_items c))"

definition LRU_Keys :: "'v LRU \<Rightarrow> bytes list" where
  "LRU_Keys c = rev (map fst (lru_items c))"

section \<open>Senders, configuration and the pool\<close>

text \<open>
  \<open>Config\<close> (pool.go, lines 63-78), without the directory, the timer periods and the
  traced senders, which decide nothing here.
\<close>

record Config =
  PendingSubPoolLimit :: int
  BaseFeeSubPoolLimit :: int
  QueuedSubPoolLimit :: int
  MinFeeCap :: u64
  AccountSlots :: u64
  PriceBump :: u64


text \<open>
  \<open>sendersBatch\<close> (pool.go, lines 1778-1783).  A Go map that the code iterates over is
  an association list (\<open>map_of\<close> looks a key up); one it only indexes is a map.
\<close>

record sendersBatch =
  senderID :: u64
  senderIDs :: "(bytes \<times> u64) list"
  senderID2Addr :: "u64 \<rightharpoonup> bytes"
  tracedSenders :: "bytes list"


definition sendersBatch_getID :: "bytes \<Rightarrow> sendersBatch \<Rightarrow> u64 \<times> bool" where
  "sendersBatch_getID addr sc =
     (case map_of (senderIDs sc) addr of None \<Rightarrow> (0, False) | Some i \<Rightarrow> (i, True))"

definition sendersBatch_getOrCreateID :: "bytes \<Rightarrow> sendersBatch \<Rightarrow> (u64 \<times> bool) \<times> sendersBatch" where
  "sendersBatch_getOrCreateID addr sc =
     (let tr = (addr \<in> set (tracedSenders sc))
      in case map_of (senderIDs sc) addr of
           Some i \<Rightarrow> ((i, tr), sc)
         | None \<Rightarrow>
             (let i = sendersBatch.senderID sc + 1
              in ((i, tr),
                  sc\<lparr>sendersBatch.senderID := i,
                     senderIDs := senderIDs sc @ [(addr, i)],
                     senderID2Addr := (senderID2Addr sc)(i \<mapsto> addr)\<rparr>)))"

text \<open>
  The state view: \<open>cacheView.Get(addr)\<close> followed by \<open>DecodeSender\<close>, both outside the
  sources.  The view answers with an error, with nothing (the account is absent), or
  with the account's nonce and balance.
\<close>

type_synonym CacheView = "bytes \<Rightarrow> failure + (u64 \<times> u256) option"

text \<open>\<open>sendersBatch.info\<close> (pool.go, lines 1808-1825): \<open>(nonce, balance, err)\<close>.\<close>

definition sendersBatch_info :: "CacheView \<Rightarrow> u64 \<Rightarrow> sendersBatch \<Rightarrow> failure + (u64 \<times> u256 \<times> failure option)" where
  "sendersBatch_info cacheView i sc =
     (case senderID2Addr sc i of
        None \<Rightarrow> Inl PanicMustNotHappen
      | Some addr \<Rightarrow>
          (case cacheView addr of
             Inl e \<Rightarrow> Inr (0, 0, Some e)
           | Inr None \<Rightarrow> Inr (0, 0, None)
           | Inr (Some nb) \<Rightarrow> Inr (fst nb, snd nb, None)))"

text \<open>\<open>TxSlots\<close>: a batch of parsed transactions with their sender addresses and flags.\<close>

record TxSlots =
  txs :: "TxSlot list"
  senders :: "bytes list"
  isLocal :: "bool list"

text \<open>
  \<open>TxSlots.Valid\<close> is declared outside the sources; it is taken to be the check its
  callers rely on when they index the three slices together: they have one length.
\<close>

definition TxSlots_Valid :: "TxSlots \<Rightarrow> failure option" where
  "TxSlots_Valid b =
     (if length (txs b) \<noteq> length (TxSlots.isLocal b) \<or> length (txs b) \<noteq> length (TxSlots.senders b)
      then Some (ReturnedError ''TxSlots: slice lengths differ'') else None)"

text \<open>\<open>sendersBatch.registerNewSenders\<close> (pool.go, lines 1827-1832).\<close>

fun registerNewSenders_loop :: "TxSlot list \<Rightarrow> bytes list \<Rightarrow> sendersBatch \<Rightarrow> failure + (TxSlot list \<times> sendersBatch)" where
  "registerNewSenders_loop [] as sc = Inr ([], sc)"
| "registerNewSenders_loop (txn # ts) [] sc = Inl PanicIndexOutOfRange"
| "registerNewSenders_loop (txn # ts) (a # as) sc =
     (let r = sendersBatch_getOrCreateID a sc
      in bindF (registerNewSenders_loop ts as (snd r))
           (\<lambda>(ts', sc'). Inr (txn\<lparr>TxSlot.senderID := fst (fst r), traced := snd (fst r)\<rparr> # ts', sc')))"

definition sendersBatch_registerNewSenders :: "TxSlots \<Rightarrow> sendersBatch \<Rightarrow> failure + (TxSlots \<times> sendersBatch)" where
  "sendersBatch_registerNewSenders newTxs sc =
     bindF (registerNewSenders_loop (txs newTxs) (TxSlots.senders newTxs) sc)
       (\<lambda>(ts', sc'). Inr (newTxs\<lparr>txs := ts'\<rparr>, sc'))"

text \<open>
  \<open>TxPool\<close> (pool.go, lines 285-318).  \<open>store\<close> holds the \<open>metaTx\<close> objects and
  \<open>nextPtr\<close> is the next free address; \<open>newPendingTxs\<close> records what was sent on the
  channel; \<open>deletedTxs\<close> holds pointers or \<open>nil\<close>.  The lock, the databases and the
  peer list are left out.
\<close>

record TxPool =
  store :: store
  nextPtr :: ptr
  started :: bool
  lastSeenBlock :: u64
  pendingBaseFee :: u64
  blockGasLimit :: u64
  unprocessedRemoteTxs :: TxSlots
  unprocessedRemoteByHash :: "bytes \<rightharpoonup> int"
  byHash :: "(bytes \<times> ptr) list"
  discardReasonsLRU :: "DiscardReason LRU"
  pending :: PendingPool
  baseFee :: SubPool
  queued :: SubPool
  isLocalLRU :: "unit LRU"
  newPendingTxs :: "bytes list list"
  deletedTxs :: "ptr option list"
  all :: BySenderAndNonce
  promoted :: "bytes list"
  cfg :: Config
  senders :: sendersBatch



text \<open>\<open>newMetaTx\<close> (pool.go, lines 226-232) allocates the object at the next free address.\<close>

definition newMetaTx :: "TxSlot \<Rightarrow> bool \<Rightarrow> u64 \<Rightarrow> TxPool \<Rightarrow> ptr \<times> TxPool" where
  "newMetaTx slot isLocal' timestmap p =
     (let mt = \<lparr>Tx = slot, subPool = (if isLocal' then IsLocal else 0),
                nonceDistance = 0, cumulativeBalanceDistance = 0, minFeeCap = 0, minTip = 0,
                bestIndex = - 1, worstIndex = - 1, currentSubPool = NoSubPool,
                timestamp = timestmap\<rparr>
      in (nextPtr p, p\<lparr>store := (store p)(nextPtr p := mt), nextPtr := nextPtr p + 1\<rparr>))"

text \<open>Writing a sub-pool and the store back into the pool.\<close>

definition withPending :: "store \<times> PendingPool \<Rightarrow> TxPool \<Rightarrow> TxPool" where
  "withPending sp p = p\<lparr>store := fst sp, pending := snd sp\<rparr>"

definition withBaseFee :: "store \<times> SubPool \<Rightarrow> TxPool \<Rightarrow> TxPool" where
  "withBaseFee sp p = p\<lparr>store := fst sp, baseFee := snd sp\<rparr>"

definition withQueued :: "store \<times> SubPool \<Rightarrow> TxPool \<Rightarrow> TxPool" where
  "withQueued sp p = p\<lparr>store := fst sp, queued := snd sp\<rparr>"

text \<open>
  The \<open>switch mt.currentSubPool\<close> that removes an element from the sub-pool it says it
  is in (pool.go, lines 996-1005, 1077-1086, 1118-1127); \<open>default:\<close> does nothing.
\<close>

definition removeFromSubPool :: "ptr \<Rightarrow> TxPool \<Rightarrow> failure + TxPool" where
  "removeFromSubPool mt p =
     (case currentSubPool (store p mt) of
        PendingSubPool \<Rightarrow>
          bindF (PendingPool_Remove mt (store p, pending p)) (\<lambda>sp. Inr (withPending sp p))
      | BaseFeeSubPool \<Rightarrow>
          bindF (SubPool_Remove mt (store p, baseFee p)) (\<lambda>sp. Inr (withBaseFee sp p))
      | QueuedSubPool \<Rightarrow>
          bindF (SubPool_Remove mt (store p, queued p)) (\<lambda>sp. Inr (withQueued sp p))
      | NoSubPool \<Rightarrow> Inr p)"

text \<open>\<open>discardLocked\<close> (pool.go, lines 1028-1033).\<close>

definition discardLocked :: "ptr \<Rightarrow> DiscardReason \<Rightarrow> TxPool \<Rightarrow> TxPool" where
  "discardLocked mt reason p =
     (let h = IdHash (Tx (store p mt))
      in p\<lparr>byHash := filter (\<lambda>e. fst e \<noteq> h) (byHash p),
           deletedTxs := deletedTxs p @ [Some mt],
           all := BySenderAndNonce_delete (store p) mt (all p),
           discardReasonsLRU := LRU_Add h reason (discardReasonsLRU p)\<rparr>)"

text \<open>
  \<open>addLocked\<close> (pool.go, lines 985-1024).  The thresholds are computed in \<open>uint64\<close>:
  the product wraps around before the division.
\<close>

definition byHash_put :: "bytes \<Rightarrow> ptr \<Rightarrow> (bytes \<times> ptr) list \<Rightarrow> (bytes \<times> ptr) list" where
  "byHash_put h mt m = (if h \<in> fst ` set m then map (\<lambda>e. if fst e = h then (h, mt) else e) m
                        else m @ [(h, mt)])"

definition addLocked_insert :: "ptr \<Rightarrow> TxPool \<Rightarrow> DiscardReason \<times> TxPool" where
  "addLocked_insert mt p =
     (let h = IdHash (Tx (store p mt));
          p1 = p\<lparr>byHash := byHash_put h mt (byHash p)\<rparr>;
          p2 = p1\<lparr>all := snd (BySenderAndNonce_replaceOrInsert (store p1) mt (all p1))\<rparr>;
          p3 = (if subPool (store p2 mt) AND IsLocal \<noteq> 0
                then p2\<lparr>isLocalLRU := LRU_Add h () (isLocalLRU p2)\<rparr> else p2)
      in (NotSet, withQueued (SubPool_Add mt (store p3, queued p3)) p3))"

definition addLocked :: "ptr \<Rightarrow> TxPool \<Rightarrow> failure + (DiscardReason \<times> TxPool)" where
  "addLocked mt p =
     (let m = Tx (store p mt)
      in case BySenderAndNonce_get (TxSlot.senderID m) (TxSlot.nonce m) (all p) of
           None \<Rightarrow> Inr (addLocked_insert mt p)
         | Some found \<Rightarrow>
             (let fm = Tx (store p found);
                  tipThreshold = tip fm * (100 + PriceBump (cfg p)) div 100;
                  feecapThreshold = feeCap fm * (100 + PriceBump (cfg p)) div 100
              in if tip m < tipThreshold \<or> feeCap m < feecapThreshold
                 then Inr (NotReplaced, p)
                 else bindF (removeFromSubPool found p)
                        (\<lambda>p1. Inr (addLocked_insert mt (discardLocked found ReplacedByHigherTip p1)))))"

section \<open>Validation\<close>

text \<open>
  The gas prices of package \<open>fixedgas\<close> are declared outside the sources; the
  functions below take them as a parameter.  The two divisors are non-zero constants.
\<close>

record fixedgas =
  TxGas :: u64
  TxGasContractCreation :: u64
  TxDataZeroGas :: u64
  TxDataNonZeroGasFrontier :: u64
  TxDataNonZeroGasEIP2028 :: u64
  TxAccessListAddressGas :: u64
  TxAccessListStorageKeyGas :: u64

text \<open>
  \<open>CalcIntrinsicGas\<close> (pool.go, lines 1705-1738).  An access list is the list of the
  numbers of storage keys of its entries, \<open>None\<close> for \<open>nil\<close>.
\<close>

definition CalcIntrinsicGas :: "fixedgas \<Rightarrow> u64 \<Rightarrow> u64 \<Rightarrow> nat list option \<Rightarrow> bool \<Rightarrow> bool \<Rightarrow> bool \<Rightarrow> u64 \<times> DiscardReason" where
  "CalcIntrinsicGas fg dataLen' dataNonZeroLen' accessList isContractCreation isHomestead isEIP2028 =
     (let gas0 = (if isContractCreation \<and> isHomestead then TxGasContractCreation fg else TxGas fg);
          withList = (\<lambda>g. case accessList of
                             None \<Rightarrow> g
                           | Some al \<Rightarrow> g + of_nat (length al) * TxAccessListAddressGas fg
                                         + of_nat (sum_list al) * TxAccessListStorageKeyGas fg)
      in if dataLen' > 0
         then (let nz = dataNonZeroLen';
                   nonZeroGas = (if isEIP2028 then TxDataNonZeroGasEIP2028 fg
                                 else TxDataNonZeroGasFrontier fg)
               in if (- 1 - gas0) div nonZeroGas < nz then (0, GasUintOverflow)
                  else (let gas1 = gas0 + nz * nonZeroGas; z = dataLen' - nz
                        in if (- 1 - gas1) div TxDataZeroGas fg < z then (0, GasUintOverflow)
                           else (withList (gas1 + z * TxDataZeroGas fg), Success)))
         else (withList gas0, Success))"

text \<open>
  \<open>validateTx\<close> (pool.go, lines 647-697).  The error of \<open>senders.info\<close> is dropped
  (\<open>senderNonce, senderBalance, _ := ...\<close>); its panic is not.
\<close>

definition validateTx :: "fixedgas \<Rightarrow> TxSlot \<Rightarrow> bool \<Rightarrow> CacheView \<Rightarrow> TxPool \<Rightarrow> failure + DiscardReason" where
  "validateTx fg txn isLocal' stateCache p =
     (if \<not> isLocal' \<and> feeCap txn < MinFeeCap (cfg p) then Inr UnderPriced
      else let gr = CalcIntrinsicGas fg (word_of_int (dataLen txn)) (word_of_int (dataNonZeroLen txn))
                      None (creation txn) True True
           in if snd gr \<noteq> Success then Inr (snd gr)
              else if fst gr > gas txn then Inr IntrinsicGas
              else if (word_of_int (BySenderAndNonce_count (TxSlot.senderID txn) (all p)) :: u64)
                        > AccountSlots (cfg p)
              then Inr Spammer
              else bindF (sendersBatch_info stateCache (TxSlot.senderID txn) (senders p))
                     (\<lambda>(senderNonce, senderBalance, err).
                        if senderNonce > TxSlot.nonce txn then Inr NonceTooLow
                        else let total = (ucast (gas txn) :: u256) * ucast (tip txn) + txvalue txn
                             in if senderBalance < total then Inr InsufficientFunds
                                else Inr Success))"

text \<open>
  \<open>punishSpammer\<close> (pool.go, lines 755-769): the callback of \<open>descend\<close> collects an
  element and stops once \<open>count\<close> has reached 0, so the walk takes \<open>count\<close> elements
  (all of them when there are fewer), then each is discarded.
\<close>

definition punishSpammer :: "u64 \<Rightarrow> TxPool \<Rightarrow> TxPool" where
  "punishSpammer spammer p =
     (let count = BySenderAndNonce_count spammer (all p) div 2
      in if count > 0
         then (let txsToDelete = take (nat count) (descendList spammer (all p))
               in fold (\<lambda>mt p'. discardLocked mt Spammer p') txsToDelete p)
         else p)"

text \<open>
  \<open>validateTxs\<close> (pool.go, lines 718-753).  The first loop is \<open>validateTxs_loop\<close>; the
  second copies the transactions whose reason is still \<open>NotSet\<close> into \<open>goodTxs\<close>.
\<close>

fun validateTxs_loop :: "fixedgas \<Rightarrow> CacheView \<Rightarrow> TxSlot list \<Rightarrow> bool list \<Rightarrow> TxPool \<Rightarrow> failure + (DiscardReason list \<times> TxPool)" where
  "validateTxs_loop fg view [] ls p = Inr ([], p)"
| "validateTxs_loop fg view (txn # ts) [] p = Inl PanicIndexOutOfRange"
| "validateTxs_loop fg view (txn # ts) (l # ls) p =
     bindF (validateTx fg txn l view p)
       (\<lambda>reason.
          let p1 = (if reason = Spammer then punishSpammer (TxSlot.senderID txn) p else p);
              r = (if reason = Success then NotSet else reason)
          in bindF (validateTxs_loop fg view ts ls p1) (\<lambda>(rs, p2). Inr (r # rs, p2)))"

definition goodSlots :: "DiscardReason list \<Rightarrow> 'a list \<Rightarrow> 'a list" where
  "goodSlots reasons xs = map snd (filter (\<lambda>e. fst e = NotSet) (zip reasons xs))"

definition validateTxs :: "fixedgas \<Rightarrow> TxSlots \<Rightarrow> CacheView \<Rightarrow> TxPool \<Rightarrow> failure + ((DiscardReason list \<times> TxSlots) \<times> TxPool)" where
  "validateTxs fg txs' stateCache p =
     (case TxSlots_Valid txs' of
        Some e \<Rightarrow> Inl e
      | None \<Rightarrow>
          bindF (validateTxs_loop fg stateCache (txs txs') (TxSlots.isLocal txs') p)
            (\<lambda>(reasons, p1).
               Inr ((reasons,
                     \<lparr>txs = goodSlots reasons (txs txs'),
                      TxSlots.senders = goodSlots reasons (TxSlots.senders txs'),
                      isLocal = goodSlots reasons (TxSlots.isLocal txs')\<rparr>), p1)))"

text \<open>
  \<open>fillDiscardReasons\<close> (pool.go, lines 771-784): for every index of \<open>reasons\<close> that is
  still \<open>NotSet\<close> it reads \<open>newTxs.txs[i]\<close>, which panics when \<open>i\<close> is not an index of
  \<open>newTxs.txs\<close>.
\<close>

fun fillDiscardReasons_loop :: "nat \<Rightarrow> DiscardReason list \<Rightarrow> TxSlot list \<Rightarrow> DiscardReason LRU \<Rightarrow> failure + (DiscardReason list \<times> DiscardReason LRU)" where
  "fillDiscardReasons_loop i [] newTxs lru = Inr ([], lru)"
| "fillDiscardReasons_loop i (r # rs) newTxs lru =
     (if r \<noteq> NotSet
      then bindF (fillDiscardReasons_loop (Suc i) rs newTxs lru) (\<lambda>(rs', lru'). Inr (r # rs', lru'))
      else if i \<ge> length newTxs then Inl PanicIndexOutOfRange
      else (let g = LRU_Get (IdHash (newTxs ! i)) lru;
                r' = (case fst g of Some reason \<Rightarrow> reason | None \<Rightarrow> Success)
            in bindF (fillDiscardReasons_loop (Suc i) rs newTxs (snd g))
                 (\<lambda>(rs', lru'). Inr (r' # rs', lru'))))"

definition fillDiscardReasons :: "DiscardReason list \<Rightarrow> TxSlots \<Rightarrow> DiscardReason LRU \<Rightarrow> failure + (DiscardReason list \<times> DiscardReason LRU)" where
  "fillDiscardReasons reasons newTxs lru = fillDiscardReasons_loop 0 reasons (txs newTxs) lru"

section \<open>Removing mined transactions\<close>

text \<open>
  \<open>removeMined\<close> (pool.go, lines 1052-1096).  \<open>noncesToRemove\<close> maps each sender of a
  mined transaction to its highest mined nonce; the list keeps the senders in the order
  of their first transaction (Go ranges over the map in an order it does not promise).
  The \<open>discard\<close> argument is \<open>p.discardLocked\<close> at the only call.
\<close>

fun noncesToRemove_put :: "u64 \<Rightarrow> u64 \<Rightarrow> (u64 \<times> u64) list \<Rightarrow> (u64 \<times> u64) list" where
  "noncesToRemove_put sid n [] = [(sid, n)]"
| "noncesToRemove_put sid n (e # es) =
     (if fst e = sid then (sid, n) # es else e # noncesToRemove_put sid n es)"

definition noncesToRemove :: "TxSlot list \<Rightarrow> (u64 \<times> u64) list" where
  "noncesToRemove minedTxs =
     foldl (\<lambda>m txn. case map_of m (TxSlot.senderID txn) of
                       None \<Rightarrow> noncesToRemove_put (TxSlot.senderID txn) (TxSlot.nonce txn) m
                     | Some n \<Rightarrow> (if TxSlot.nonce txn > n
                                  then noncesToRemove_put (TxSlot.senderID txn) (TxSlot.nonce txn) m
                                  else m))
       [] minedTxs"

text \<open>
  The callback of \<open>ascend\<close>: stop at the first nonce above the mined one; otherwise
  collect the element in \<open>toDel\<close> and take it out of its sub-pool.
\<close>

fun removeMined_walk :: "u64 \<Rightarrow> ptr list \<Rightarrow> ptr list \<Rightarrow> TxPool \<Rightarrow> failure + (ptr list \<times> TxPool)" where
  "removeMined_walk n [] toDel p = Inr (toDel, p)"
| "removeMined_walk n (mt # rest) toDel p =
     (if TxSlot.nonce (Tx (store p mt)) > n then Inr (toDel, p)
      else bindF (removeFromSubPool mt p) (\<lambda>p1. removeMined_walk n rest (toDel @ [mt]) p1))"

fun removeMined_senders :: "(u64 \<times> u64) list \<Rightarrow> TxPool \<Rightarrow> failure + TxPool" where
  "removeMined_senders [] p = Inr p"
| "removeMined_senders (e # es) p =
     bindF (removeMined_walk (snd e) (ascendList (fst e) (all p)) [] p)
       (\<lambda>(toDel, p1). removeMined_senders es (fold (\<lambda>mt p'. discardLocked mt Mined p') toDel p1))"

definition removeMined :: "TxSlot list \<Rightarrow> TxPool \<Rightarrow> failure + TxPool" where
  "removeMined minedTxs p = removeMined_senders (noncesToRemove minedTxs) p"

section \<open>Reclassification of a sender's transactions\<close>

text \<open>\<open>calcProtocolBaseFee\<close> (pool.go, lines 273-275).\<close>

definition calcProtocolBaseFee :: "u64 \<Rightarrow> u64" where
  "calcProtocolBaseFee baseFee' = 7"

text \<open>
  \<open>onSenderStateChange\<close> (pool.go, lines 1102-1211).  \<open>senderWalk\<close> holds the variables
  the callback of \<open>ascend\<close> closes over; \<open>onSenderStateChange_step\<close> is the callback,
  which always returns true, so the walk visits every transaction of the sender.
\<close>

record senderWalk =
  noGapsNonce :: u64
  cumulativeRequiredBalance :: u256
  minFeeCap' :: u64
  minTip' :: u64
  toDel :: "ptr list"

definition updatedInSubPool :: "ptr \<Rightarrow> TxPool \<Rightarrow> failure + TxPool" where
  "updatedInSubPool mt p =
     (case currentSubPool (store p mt) of
        PendingSubPool \<Rightarrow>
          bindF (PendingPool_Updated mt (store p, pending p)) (\<lambda>sp. Inr (withPending sp p))
      | BaseFeeSubPool \<Rightarrow>
          bindF (SubPool_Updated mt (store p, baseFee p)) (\<lambda>sp. Inr (withBaseFee sp p))
      | QueuedSubPool \<Rightarrow>
          bindF (SubPool_Updated mt (store p, queued p)) (\<lambda>sp. Inr (withQueued sp p))
      | NoSubPool \<Rightarrow> Inr p)"

definition setMeta :: "ptr \<Rightarrow> (metaTx \<Rightarrow> metaTx) \<Rightarrow> TxPool \<Rightarrow> TxPool" where
  "setMeta mt g p = p\<lparr>store := (store p)(mt := g (store p mt))\<rparr>"

definition onSenderStateChange_step ::
  "u64 \<Rightarrow> u256 \<Rightarrow> u64 \<Rightarrow> u64 \<Rightarrow> bool \<Rightarrow> ptr \<Rightarrow> senderWalk \<times> TxPool \<Rightarrow> failure + (senderWalk \<times> TxPool)" where
  "onSenderStateChange_step senderNonce senderBalance protocolBaseFee blockGasLimit' unsafe mt wp =
     (let w = fst wp; p = snd wp; m = Tx (store p mt)
      in if senderNonce > TxSlot.nonce m
         then bindF (removeFromSubPool mt p) (\<lambda>p1. Inr (w\<lparr>toDel := toDel w @ [mt]\<rparr>, p1))
         else
           let fc = min64 (minFeeCap' w) (feeCap m);
               tp = min64 (minTip' w) (tip m);
               w1 = w\<lparr>minFeeCap' := fc, minTip' := tp\<rparr>;
               p1 = setMeta mt (\<lambda>x. x\<lparr>minFeeCap := fc, minTip := tp,
                                        nonceDistance := (if TxSlot.nonce m > senderNonce
                                                          then TxSlot.nonce m - senderNonce else 0)\<rparr>) p;
               needBalance = (ucast (gas m) :: u256) * ucast (feeCap m) + txvalue m;
               p2 = setMeta mt (\<lambda>x. x\<lparr>subPool := subPool x AND NOT EnoughFeeCapProtocol\<rparr>) p1
           in if minFeeCap (store p2 mt) \<ge> protocolBaseFee
              then
                let p3 = setMeta mt (\<lambda>x. x\<lparr>subPool := subPool x OR EnoughFeeCapProtocol\<rparr>) p2;
                    p4 = setMeta mt (\<lambda>x. x\<lparr>subPool := subPool x AND NOT NoNonceGaps\<rparr>) p3;
                    gapless = (noGapsNonce w1 = TxSlot.nonce m);
                    p5 = (if gapless then setMeta mt (\<lambda>x. x\<lparr>subPool := subPool x OR NoNonceGaps\<rparr>) p4
                          else p4);
                    w2 = (if gapless then w1\<lparr>noGapsNonce := noGapsNonce w1 + 1\<rparr> else w1);
                    p6 = setMeta mt (\<lambda>x. x\<lparr>subPool := subPool x AND NOT EnoughBalance,
                                             cumulativeBalanceDistance := - 1\<rparr>) p5;
                    cum = cumulativeRequiredBalance w2 + needBalance;
                    w3 = (if TxSlot.nonce m \<ge> senderNonce then w2\<lparr>cumulativeRequiredBalance := cum\<rparr>
                          else w2);
                    p7 = (if TxSlot.nonce m \<ge> senderNonce
                          then (if senderBalance > cum \<or> senderBalance = cum
                                then setMeta mt (\<lambda>x. x\<lparr>subPool := subPool x OR EnoughBalance\<rparr>) p6
                                else if cum < 2 ^ 64 \<and> senderBalance < 2 ^ 64
                                then setMeta mt (\<lambda>x. x\<lparr>cumulativeBalanceDistance :=
                                                          ucast cum - ucast senderBalance\<rparr>) p6
                                else p6)
                          else p6);
                    p8 = setMeta mt (\<lambda>x. x\<lparr>subPool := subPool x AND NOT NotTooMuchGas\<rparr>) p7;
                    p9 = (if gas m < blockGasLimit'
                          then setMeta mt (\<lambda>x. x\<lparr>subPool := subPool x OR NotTooMuchGas\<rparr>) p8
                          else p8)
                in if \<not> unsafe then bindF (updatedInSubPool mt p9) (\<lambda>p10. Inr (w3, p10))
                   else Inr (w3, p9)
              else Inr (w1, setMeta mt (\<lambda>x. x\<lparr>subPool := 0\<rparr>) p2))"

fun onSenderStateChange_walk ::
  "u64 \<Rightarrow> u256 \<Rightarrow> u64 \<Rightarrow> u64 \<Rightarrow> bool \<Rightarrow> ptr list \<Rightarrow> senderWalk \<times> TxPool \<Rightarrow> failure + (senderWalk \<times> TxPool)" where
  "onSenderStateChange_walk sn sb pbf bgl unsafe [] wp = Inr wp"
| "onSenderStateChange_walk sn sb pbf bgl unsafe (mt # rest) wp =
     bindF (onSenderStateChange_step sn sb pbf bgl unsafe mt wp)
       (\<lambda>wp1. onSenderStateChange_walk sn sb pbf bgl unsafe rest wp1)"

definition onSenderStateChange ::
  "u64 \<Rightarrow> u64 \<Rightarrow> u256 \<Rightarrow> u64 \<Rightarrow> u64 \<Rightarrow> bool \<Rightarrow> TxPool \<Rightarrow> failure + TxPool" where
  "onSenderStateChange senderID' senderNonce senderBalance protocolBaseFee blockGasLimit' unsafe p =
     bindF (onSenderStateChange_walk senderNonce senderBalance protocolBaseFee blockGasLimit' unsafe
              (ascendList senderID' (all p))
              (\<lparr>noGapsNonce = senderNonce, cumulativeRequiredBalance = 0,
                minFeeCap' = - 1, minTip' = - 1, toDel = []\<rparr>, p))
       (\<lambda>(w, p1). Inr (fold (\<lambda>mt p'. discardLocked mt NonceTooLow p') (toDel w) p1))"

section \<open>Promotion\<close>

lemma bindF_cong [fundef_cong]:
  "r = r' \<Longrightarrow> (\<And>x. r' = Inr x \<Longrightarrow> g x = g' x) \<Longrightarrow> bindF r g = bindF r' g'"
  by (auto simp: bindF_def split: sum.splits)

lemma bindF_Inr_iff: "bindF r g = Inr y \<longleftrightarrow> (\<exists>x. r = Inr x \<and> g x = Inr y)"
  by (auto simp: bindF_def split: sum.splits)

lemma length_Swap' [simp]: "length (snd (Swap k i j q)) = length (snd q)"
  by (simp add: Swap_def Let_def)

lemma length_heap_up [simp]: "length (snd (heap_up k f j q)) = length (snd q)"
proof (induction k f j q rule: heap_up.induct)
  case (1 k f j q)
  show ?case
    by (subst heap_up.simps) (use 1 in \<open>auto simp: Let_def\<close>)
qed

lemma length_down_loop [simp]: "length (snd (fst (down_loop k f i n q))) = length (snd q)"
proof (induction k f i n q rule: down_loop.induct)
  case (1 k f i n q)
  show ?case
    by (subst down_loop.simps) (use 1 in \<open>auto simp: Let_def\<close>)
qed

lemma length_qPop: "qPop k q = Inr (x, q') \<Longrightarrow> Suc (length (snd q')) = length (snd q)"
  by (auto simp: qPop_def Let_def split: if_splits)

lemma length_heap_Pop: "heap_Pop k f q = Inr (x, q') \<Longrightarrow> Suc (length (snd q')) = length (snd q)"
  by (auto simp: heap_Pop_def heap_down_def Let_def dest!: length_qPop split: if_splits)

lemma length_heap_Remove: "heap_Remove k f i q = Inr (x, q') \<Longrightarrow> Suc (length (snd q')) = length (snd q)"
  by (auto simp: heap_Remove_def heap_down_def Let_def dest!: length_qPop split: if_splits)

lemma length_UnsafeRemove:
  "bestSlice_UnsafeRemove i q = Inr q' \<Longrightarrow> Suc (length (snd q')) = length (snd q)"
  by (auto simp: bestSlice_UnsafeRemove_def Let_def split: if_splits)

lemma PendingPool_PopWorst_Len:
  "PendingPool_PopWorst (\<sigma>, pp) = Inr (x, \<sigma>', pp') \<Longrightarrow>
     length (bestSlice.ms (PendingPool.best pp')) < length (bestSlice.ms (PendingPool.best pp))"
  by (auto simp: PendingPool_PopWorst_def PendingPool_Len_def Let_def bindF_Inr_iff
      dest!: length_UnsafeRemove)

lemma SubPool_PopWorst_Len:
  "SubPool_PopWorst (\<sigma>, sp) = Inr (x, \<sigma>', sp') \<Longrightarrow>
     length (BestQueue.ms (SubPool.best sp')) < length (BestQueue.ms (SubPool.best sp))"
  by (auto simp: SubPool_PopWorst_def SubPool_Len_def Let_def bindF_Inr_iff
      dest!: length_heap_Remove)

lemma SubPool_PopBest_Len:
  "SubPool_PopBest (\<sigma>, sp) = Inr (x, \<sigma>', sp') \<Longrightarrow>
     length (BestQueue.ms (SubPool.best sp')) < length (BestQueue.ms (SubPool.best sp))"
  by (auto simp: SubPool_PopBest_def SubPool_Len_def Let_def bindF_Inr_iff
      dest!: length_heap_Pop)


text \<open>The sub-pool methods on the pool: \<open>pending.Add(x)\<close>, \<open>baseFee.PopWorst()\<close>, ...\<close>

definition pending_Add :: "ptr \<Rightarrow> TxPool \<Rightarrow> TxPool" where
  "pending_Add i p = withPending (PendingPool_Add i (store p, pending p)) p"

definition baseFee_Add :: "ptr \<Rightarrow> TxPool \<Rightarrow> TxPool" where
  "baseFee_Add i p = withBaseFee (SubPool_Add i (store p, baseFee p)) p"

definition queued_Add :: "ptr \<Rightarrow> TxPool \<Rightarrow> TxPool" where
  "queued_Add i p = withQueued (SubPool_Add i (store p, queued p)) p"

definition pending_PopWorst :: "TxPool \<Rightarrow> failure + (ptr \<times> TxPool)" where
  "pending_PopWorst p =
     bindF (PendingPool_PopWorst (store p, pending p)) (\<lambda>(i, sp). Inr (i, withPending sp p))"

definition baseFee_PopWorst :: "TxPool \<Rightarrow> failure + (ptr \<times> TxPool)" where
  "baseFee_PopWorst p =
     bindF (SubPool_PopWorst (store p, baseFee p)) (\<lambda>(i, sp). Inr (i, withBaseFee sp p))"

definition baseFee_PopBest :: "TxPool \<Rightarrow> failure + (ptr \<times> TxPool)" where
  "baseFee_PopBest p =
     bindF (SubPool_PopBest (store p, baseFee p)) (\<lambda>(i, sp). Inr (i, withBaseFee sp p))"

definition queued_PopWorst :: "TxPool \<Rightarrow> failure + (ptr \<times> TxPool)" where
  "queued_PopWorst p =
     bindF (SubPool_PopWorst (store p, queued p)) (\<lambda>(i, sp). Inr (i, withQueued sp p))"

definition queued_PopBest :: "TxPool \<Rightarrow> failure + (ptr \<times> TxPool)" where
  "queued_PopBest p =
     bindF (SubPool_PopBest (store p, queued p)) (\<lambda>(i, sp). Inr (i, withQueued sp p))"

lemma pending_PopWorst_Len:
  "pending_PopWorst p = Inr (i, p1) \<Longrightarrow>
     PendingPool_Len (pending p1) < PendingPool_Len (pending p) \<and> 0 < PendingPool_Len (pending p)"
  by (auto simp: PendingPool_Len_def SubPool_Len_def pending_PopWorst_def withPending_def bindF_Inr_iff dest: PendingPool_PopWorst_Len)

lemma baseFee_PopWorst_Len:
  "baseFee_PopWorst p = Inr (i, p1) \<Longrightarrow>
     SubPool_Len (baseFee p1) < SubPool_Len (baseFee p) \<and> 0 < SubPool_Len (baseFee p)"
  by (auto simp: PendingPool_Len_def SubPool_Len_def baseFee_PopWorst_def withBaseFee_def bindF_Inr_iff dest: SubPool_PopWorst_Len)

lemma baseFee_PopBest_Len:
  "baseFee_PopBest p = Inr (i, p1) \<Longrightarrow>
     SubPool_Len (baseFee p1) < SubPool_Len (baseFee p) \<and> 0 < SubPool_Len (baseFee p)"
  by (auto simp: PendingPool_Len_def SubPool_Len_def baseFee_PopBest_def withBaseFee_def bindF_Inr_iff dest: SubPool_PopBest_Len)

lemma queued_PopWorst_Len:
  "queued_PopWorst p = Inr (i, p1) \<Longrightarrow>
     SubPool_Len (queued p1) < SubPool_Len (queued p) \<and> 0 < SubPool_Len (queued p)"
  by (auto simp: PendingPool_Len_def SubPool_Len_def queued_PopWorst_def withQueued_def bindF_Inr_iff dest: SubPool_PopWorst_Len)

lemma queued_PopBest_Len:
  "queued_PopBest p = Inr (i, p1) \<Longrightarrow>
     SubPool_Len (queued p1) < SubPool_Len (queued p) \<and> 0 < SubPool_Len (queued p)"
  by (auto simp: PendingPool_Len_def SubPool_Len_def queued_PopBest_def withQueued_def bindF_Inr_iff dest: SubPool_PopBest_Len)

lemma pools_of_Add [simp]:
  "baseFee (pending_Add i p) = baseFee p" "queued (pending_Add i p) = queued p"
  "pending (baseFee_Add i p) = pending p" "queued (baseFee_Add i p) = queued p"
  "pending (queued_Add i p) = pending p" "baseFee (queued_Add i p) = baseFee p"
  by (simp_all add: pending_Add_def baseFee_Add_def queued_Add_def withPending_def
      withBaseFee_def withQueued_def)

lemma pools_of_discardLocked [simp]:
  "pending (discardLocked i r p) = pending p" "baseFee (discardLocked i r p) = baseFee p"
  "queued (discardLocked i r p) = queued p" "store (discardLocked i r p) = store p"
  by (simp_all add: discardLocked_def Let_def)

text \<open>
  \<open>promote\<close> (pool.go, lines 1215-1269), one function per loop.  A loop condition that
  reads \<open>worst.subPool\<close> when \<open>Len() > 0\<close> but \<open>Worst()\<close> returned \<open>nil\<close> is a nil
  dereference.  The \<open>discard\<close> argument is \<open>p.discardLocked\<close> at every call.
\<close>

function promote_demotePending :: "u64 \<Rightarrow> TxPool \<Rightarrow> failure + TxPool" where
  "promote_demotePending pendingBaseFee' p =
     (if PendingPool_Len (pending p) > 0
      then (case PendingPool_Worst (pending p) of
              None \<Rightarrow> Inl PanicNilDereference
            | Some w \<Rightarrow>
                if subPool (store p w) < BaseFeePoolBits \<or> minFeeCap (store p w) < pendingBaseFee'
                then bindF (pending_PopWorst p)
                       (\<lambda>(i, p1). promote_demotePending pendingBaseFee'
                          (if subPool (store p w) \<ge> BaseFeePoolBits then baseFee_Add i p1
                           else if subPool (store p w) \<ge> QueuedPoolBits then queued_Add i p1
                           else discardLocked i FeeTooLow p1))
                else Inr p)
      else Inr p)"
  by pat_completeness auto
termination
  by (relation "measure (\<lambda>(f, p). nat (PendingPool_Len (pending p)))")
     (auto dest: pending_PopWorst_Len)

function promote_promoteBaseFee :: "u64 \<Rightarrow> TxPool \<Rightarrow> failure + TxPool" where
  "promote_promoteBaseFee pendingBaseFee' p =
     (if SubPool_Len (baseFee p) > 0
      then (case SubPool_Best (baseFee p) of
              None \<Rightarrow> Inl PanicNilDereference
            | Some b \<Rightarrow>
                if subPool (store p b) \<ge> BaseFeePoolBits \<and> minFeeCap (store p b) \<ge> pendingBaseFee'
                then bindF (baseFee_PopBest p)
                       (\<lambda>(i, p1). promote_promoteBaseFee pendingBaseFee' (pending_Add i p1))
                else Inr p)
      else Inr p)"
  by pat_completeness auto
termination
  by (relation "measure (\<lambda>(f, p). nat (SubPool_Len (baseFee p)))")
     (auto dest: baseFee_PopBest_Len)

function promote_demoteBaseFee :: "TxPool \<Rightarrow> failure + TxPool" where
  "promote_demoteBaseFee p =
     (if SubPool_Len (baseFee p) > 0
      then (case SubPool_Worst (baseFee p) of
              None \<Rightarrow> Inl PanicNilDereference
            | Some w \<Rightarrow>
                if subPool (store p w) < BaseFeePoolBits
                then bindF (baseFee_PopWorst p)
                       (\<lambda>(i, p1). promote_demoteBaseFee
                          (if subPool (store p w) \<ge> QueuedPoolBits then queued_Add i p1
                           else discardLocked i FeeTooLow p1))
                else Inr p)
      else Inr p)"
  by pat_completeness auto
termination
  by (relation "measure (\<lambda>p. nat (SubPool_Len (baseFee p)))")
     (auto dest: baseFee_PopWorst_Len)

function promote_promoteQueued :: "u64 \<Rightarrow> TxPool \<Rightarrow> failure + TxPool" where
  "promote_promoteQueued pendingBaseFee' p =
     (if SubPool_Len (queued p) > 0
      then (case SubPool_Best (queued p) of
              None \<Rightarrow> Inl PanicNilDereference
            | Some b \<Rightarrow>
                if subPool (store p b) \<ge> BaseFeePoolBits
                then bindF (queued_PopBest p)
                       (\<lambda>(i, p1). promote_promoteQueued pendingBaseFee'
                          (if minFeeCap (store p b) \<ge> pendingBaseFee' then pending_Add i p1
                           else baseFee_Add i p1))
                else Inr p)
      else Inr p)"
  by pat_completeness auto
termination
  by (relation "measure (\<lambda>(f, p). nat (SubPool_Len (queued p)))")
     (auto dest: queued_PopBest_Len)

function promote_discardQueued :: "TxPool \<Rightarrow> failure + TxPool" where
  "promote_discardQueued p =
     (if SubPool_Len (queued p) > 0
      then (case SubPool_Worst (queued p) of
              None \<Rightarrow> Inl PanicNilDereference
            | Some w \<Rightarrow>
                if subPool (store p w) < QueuedPoolBits
                then bindF (queued_PopWorst p)
                       (\<lambda>(i, p1). promote_discardQueued (discardLocked i FeeTooLow p1))
                else Inr p)
      else Inr p)"
  by pat_completeness auto
termination
  by (relation "measure (\<lambda>p. nat (SubPool_Len (queued p)))")
     (auto dest: queued_PopWorst_Len)

function promote_pendingOverflow :: "TxPool \<Rightarrow> failure + TxPool" where
  "promote_pendingOverflow p =
     (if PendingPool_Len (pending p) > PendingPool.limit (pending p)
      then bindF (pending_PopWorst p)
             (\<lambda>(i, p1). promote_pendingOverflow (discardLocked i PendingPoolOverflow p1))
      else Inr p)"
  by pat_completeness auto
termination
  by (relation "measure (\<lambda>p. nat (PendingPool_Len (pending p)))")
     (auto dest: pending_PopWorst_Len)

function promote_baseFeeOverflow :: "TxPool \<Rightarrow> failure + TxPool" where
  "promote_baseFeeOverflow p =
     (if SubPool_Len (baseFee p) > SubPool.limit (baseFee p)
      then bindF (baseFee_PopWorst p)
             (\<lambda>(i, p1). promote_baseFeeOverflow (discardLocked i BaseFeePoolOverflow p1))
      else Inr p)"
  by pat_completeness auto
termination
  by (relation "measure (\<lambda>p. nat (SubPool_Len (baseFee p)))")
     (auto dest: baseFee_PopWorst_Len)

function promote_queuedOverflow :: "TxPool \<Rightarrow> failure + TxPool" where
  "promote_queuedOverflow p =
     (if SubPool_Len (queued p) > SubPool.limit (queued p)
      then bindF (queued_PopWorst p)
             (\<lambda>(i, p1). promote_queuedOverflow (discardLocked i QueuedPoolOverflow p1))
      else Inr p)"
  by pat_completeness auto
termination
  by (relation "measure (\<lambda>p. nat (SubPool_Len (queued p)))")
     (auto dest: queued_PopWorst_Len)

declare promote_demotePending.simps [simp del] promote_promoteBaseFee.simps [simp del]
  promote_demoteBaseFee.simps [simp del] promote_promoteQueued.simps [simp del]
  promote_discardQueued.simps [simp del] promote_pendingOverflow.simps [simp del]
  promote_baseFeeOverflow.simps [simp del] promote_queuedOverflow.simps [simp del]

definition promote :: "u64 \<Rightarrow> TxPool \<Rightarrow> failure + TxPool" where
  "promote pendingBaseFee' p =
     bindF (promote_demotePending pendingBaseFee' p) (\<lambda>p1.
     bindF (promote_promoteBaseFee pendingBaseFee' p1) (\<lambda>p2.
     bindF (promote_demoteBaseFee p2) (\<lambda>p3.
     bindF (promote_promoteQueued pendingBaseFee' p3) (\<lambda>p4.
     bindF (promote_discardQueued p4) (\<lambda>p5.
     bindF (promote_pendingOverflow p5) (\<lambda>p6.
     bindF (promote_baseFeeOverflow p6) (\<lambda>p7.
     promote_queuedOverflow p7)))))))"

section \<open>Adding transactions\<close>

text \<open>
  \<open>addTxs\<close> (pool.go, lines 859-912).  Its arguments \<open>pending\<close>, \<open>baseFee\<close>, \<open>queued\<close>,
  \<open>byNonce\<close>, \<open>byHash\<close>, \<open>add\<close> and \<open>discard\<close> are the pool's own fields and its methods
  \<open>addLocked\<close> and \<open>discardLocked\<close> at every call, so the model passes the pool.
  \<open>sendersWithChangedState\<close> is the list of the senders in the order they were first
  added (Go ranges over the set in an order it does not promise).
\<close>

fun addTxs_loop :: "u64 \<Rightarrow> TxSlot list \<Rightarrow> bool list \<Rightarrow> u64 list \<Rightarrow> TxPool \<Rightarrow> failure + (DiscardReason list \<times> u64 list \<times> TxPool)" where
  "addTxs_loop blockNum [] ls changed p = Inr ([], changed, p)"
| "addTxs_loop blockNum (txn # ts) [] changed p = Inl PanicIndexOutOfRange"
| "addTxs_loop blockNum (txn # ts) (l # ls) changed p =
     (if IdHash txn \<in> fst ` set (byHash p)
      then bindF (addTxs_loop blockNum ts ls changed p)
             (\<lambda>(rs, c, p'). Inr (DuplicateHash # rs, c, p'))
      else let a = newMetaTx txn l blockNum p
           in bindF (addLocked (fst a) (snd a))
                (\<lambda>(reason, p1).
                   if reason \<noteq> NotSet
                   then bindF (addTxs_loop blockNum ts ls changed p1)
                          (\<lambda>(rs, c, p'). Inr (reason # rs, c, p'))
                   else let sid = TxSlot.senderID (Tx (store p1 (fst a)));
                            changed' = (if sid \<in> set changed then changed else changed @ [sid])
                        in bindF (addTxs_loop blockNum ts ls changed' p1)
                             (\<lambda>(rs, c, p'). Inr (NotSet # rs, c, p'))))"

fun changedSenders_loop :: "CacheView \<Rightarrow> u64 \<Rightarrow> u64 \<Rightarrow> bool \<Rightarrow> u64 list \<Rightarrow> TxPool \<Rightarrow> failure + TxPool" where
  "changedSenders_loop view protocolBaseFee blockGasLimit' unsafe [] p = Inr p"
| "changedSenders_loop view protocolBaseFee blockGasLimit' unsafe (sid # rest) p =
     bindF (sendersBatch_info view sid (senders p))
       (\<lambda>(nonce', balance, err).
          case err of
            Some e \<Rightarrow> Inl e
          | None \<Rightarrow>
              bindF (onSenderStateChange sid nonce' balance protocolBaseFee blockGasLimit' unsafe p)
                (\<lambda>p1. changedSenders_loop view protocolBaseFee blockGasLimit' unsafe rest p1))"

definition addTxs :: "u64 \<Rightarrow> CacheView \<Rightarrow> TxSlots \<Rightarrow> u64 \<Rightarrow> u64 \<Rightarrow> TxPool \<Rightarrow> failure + (DiscardReason list \<times> TxPool)" where
  "addTxs blockNum cacheView newTxs pendingBaseFee' blockGasLimit' p =
     (let protocolBaseFee = calcProtocolBaseFee pendingBaseFee'
      in bindF (addTxs_loop blockNum (txs newTxs) (TxSlots.isLocal newTxs) [] p)
           (\<lambda>(discardReasons, changed, p1).
              bindF (changedSenders_loop cacheView protocolBaseFee blockGasLimit' False changed p1)
                (\<lambda>p2. bindF (promote pendingBaseFee' p2)
                   (\<lambda>p3. Inr (discardReasons,
                               withPending (PendingPool_EnforceBestInvariants (store p3, pending p3)) p3)))))"

text \<open>
  \<open>AddLocalTxs\<close> (pool.go, lines 786-846), from the point where the read transaction
  and the cache view have been obtained.  \<open>mergeReasons\<close> is the loop over
  \<open>addReasons\<close>, \<open>promotedHashes\<close> the loop over \<open>reasons\<close> that reads \<open>newTxs.txs[i]\<close>.
  The send on \<open>newPendingTxs\<close> is taken to find room in the channel.
\<close>

fun mergeReasons :: "nat \<Rightarrow> DiscardReason list \<Rightarrow> DiscardReason list \<Rightarrow> failure + DiscardReason list" where
  "mergeReasons i [] reasons = Inr reasons"
| "mergeReasons i (reason # rest) reasons =
     (if reason \<noteq> NotSet
      then (if i \<ge> length reasons then Inl PanicIndexOutOfRange
            else mergeReasons (Suc i) rest (reasons[i := reason]))
      else mergeReasons (Suc i) rest reasons)"

fun promotedHashes :: "nat \<Rightarrow> DiscardReason list \<Rightarrow> TxSlot list \<Rightarrow> failure + bytes list" where
  "promotedHashes i [] newTxs = Inr []"
| "promotedHashes i (reason # rest) newTxs =
     (if reason = Success
      then (if i \<ge> length newTxs then Inl PanicIndexOutOfRange
            else bindF (promotedHashes (Suc i) rest newTxs) (\<lambda>hs. Inr (IdHash (newTxs ! i) # hs)))
      else promotedHashes (Suc i) rest newTxs)"

definition AddLocalTxs :: "fixedgas \<Rightarrow> CacheView \<Rightarrow> TxSlots \<Rightarrow> TxPool \<Rightarrow> failure + (DiscardReason list \<times> TxPool)" where
  "AddLocalTxs fg cacheView newTransactions p =
     (if \<not> started p then Inl (ReturnedError ''pool not started yet'')
      else
        bindF (sendersBatch_registerNewSenders newTransactions (senders p)) (\<lambda>(registered, sc).
        bindF (validateTxs fg registered cacheView (p\<lparr>senders := sc\<rparr>)) (\<lambda>((reasons, newTxs), p1).
        let p2 = p1\<lparr>pending := PendingPool_resetAddedHashes (pending p1),
                    baseFee := SubPool_resetAddedHashes (baseFee p1)\<rparr>
        in
        bindF (addTxs (lastSeenBlock p2) cacheView newTxs (TxPool.pendingBaseFee p2) (blockGasLimit p2) p2)
          (\<lambda>(addReasons, p3).
        bindF (mergeReasons 0 addReasons reasons) (\<lambda>reasons1.
        let a1 = PendingPool_appendAddedHashes [] (pending p3);
            a2 = SubPool_appendAddedHashes (fst a1) (baseFee p3);
            p4 = p3\<lparr>pending := snd a1, baseFee := snd a2, promoted := fst a2\<rparr>
        in
        bindF (fillDiscardReasons reasons1 newTxs (discardReasonsLRU p4)) (\<lambda>(reasons2, lru).
        bindF (promotedHashes 0 reasons2 (txs newTxs)) (\<lambda>hs.
        let p5 = p4\<lparr>discardReasonsLRU := lru, promoted := promoted p4 @ hs\<rparr>;
            p6 = (if promoted p5 \<noteq> [] then p5\<lparr>newPendingTxs := newPendingTxs p5 @ [promoted p5]\<rparr>
                  else p5)
        in Inr (reasons2, p6))))))))"

section \<open>Persistence\<close>

text \<open>
  The key-value store is outside the sources.  Modelled from the spec: three buckets
  with has, put, delete, append and clear-bucket; "Infrastructure failures (...
  persistence write error) surface as a single top-level error"; a write transaction
  takes effect when it commits and not at all when it aborts.  \<open>failAt\<close> is the number
  of the operation (counted from 0, the commit last) that returns an error, if any.
\<close>

record DB =
  PoolTransaction :: "(bytes \<times> bytes) list"
  RecentLocalTransaction :: "(bytes \<times> bytes) list"
  PoolInfo :: "(bytes \<times> bytes) list"

record RwTx =
  buckets :: DB
  ops :: nat
  failAt :: "nat option"

definition kvError :: failure where
  "kvError = ReturnedError ''kv: operation failed''"

definition tick :: "RwTx \<Rightarrow> failure + RwTx" where
  "tick tx = (if failAt tx = Some (ops tx) then Inl kvError else Inr (tx\<lparr>ops := ops tx + 1\<rparr>))"

definition alist_put :: "bytes \<Rightarrow> bytes \<Rightarrow> (bytes \<times> bytes) list \<Rightarrow> (bytes \<times> bytes) list" where
  "alist_put k v m = (if k \<in> fst ` set m then map (\<lambda>e. if fst e = k then (k, v) else e) m
                      else m @ [(k, v)])"

definition tx_Has_PoolTransaction :: "bytes \<Rightarrow> RwTx \<Rightarrow> failure + (bool \<times> RwTx)" where
  "tx_Has_PoolTransaction k tx =
     bindF (tick tx) (\<lambda>tx1. Inr (k \<in> fst ` set (PoolTransaction (buckets tx1)), tx1))"

definition tx_Delete_PoolTransaction :: "bytes \<Rightarrow> RwTx \<Rightarrow> failure + RwTx" where
  "tx_Delete_PoolTransaction k tx =
     bindF (tick tx) (\<lambda>tx1. Inr (tx1\<lparr>buckets := (buckets tx1)\<lparr>PoolTransaction :=
        filter (\<lambda>e. fst e \<noteq> k) (PoolTransaction (buckets tx1))\<rparr>\<rparr>))"

definition tx_Put_PoolTransaction :: "bytes \<Rightarrow> bytes \<Rightarrow> RwTx \<Rightarrow> failure + RwTx" where
  "tx_Put_PoolTransaction k v tx =
     bindF (tick tx) (\<lambda>tx1. Inr (tx1\<lparr>buckets := (buckets tx1)\<lparr>PoolTransaction :=
        alist_put k v (PoolTransaction (buckets tx1))\<rparr>\<rparr>))"

definition tx_ClearBucket_RecentLocalTransaction :: "RwTx \<Rightarrow> failure + RwTx" where
  "tx_ClearBucket_RecentLocalTransaction tx =
     bindF (tick tx) (\<lambda>tx1. Inr (tx1\<lparr>buckets := (buckets tx1)\<lparr>RecentLocalTransaction := []\<rparr>\<rparr>))"

definition tx_Append_RecentLocalTransaction :: "bytes \<Rightarrow> bytes \<Rightarrow> RwTx \<Rightarrow> failure + RwTx" where
  "tx_Append_RecentLocalTransaction k v tx =
     bindF (tick tx) (\<lambda>tx1. Inr (tx1\<lparr>buckets := (buckets tx1)\<lparr>RecentLocalTransaction :=
        RecentLocalTransaction (buckets tx1) @ [(k, v)]\<rparr>\<rparr>))"

definition tx_Put_PoolInfo :: "bytes \<Rightarrow> bytes \<Rightarrow> RwTx \<Rightarrow> failure + RwTx" where
  "tx_Put_PoolInfo k v tx =
     bindF (tick tx) (\<lambda>tx1. Inr (tx1\<lparr>buckets := (buckets tx1)\<lparr>PoolInfo :=
        alist_put k v (PoolInfo (buckets tx1))\<rparr>\<rparr>))"

text \<open>\<open>SpaceDirty\<close>: the size of what the transaction has written, here the operation count.\<close>

definition tx_SpaceDirty :: "RwTx \<Rightarrow> failure + (u64 \<times> RwTx)" where
  "tx_SpaceDirty tx = bindF (tick tx) (\<lambda>tx1. Inr (of_nat (ops tx1), tx1))"

definition tx_Commit :: "RwTx \<Rightarrow> failure + DB" where
  "tx_Commit tx = bindF (tick tx) (\<lambda>tx1. Inr (buckets tx1))"

text \<open>\<open>binary.BigEndian.PutUint64\<close>.\<close>

definition be64 :: "u64 \<Rightarrow> bytes" where
  "be64 w = map (\<lambda>k. ucast (drop_bit (8 * k) w)) [7, 6, 5, 4, 3, 2, 1, 0]"

definition PoolLastSeenBlockKey :: bytes where
  "PoolLastSeenBlockKey = map (of_nat \<circ> of_char) ''last_seen_block''"

definition PoolPendingBaseFeeKey :: bytes where
  "PoolPendingBaseFeeKey = map (of_nat \<circ> of_char) ''pending_base_fee''"

text \<open>
  \<open>flushLocked\<close> (pool.go, lines 1419-1494).  Each function returns the error, if
  any, together with the transaction and the pool as they are at that point: what the
  code has written to the pool's fields before an error stays written.
\<close>

fun flushLocked_deleted :: "nat \<Rightarrow> ptr option list \<Rightarrow> RwTx \<Rightarrow> TxPool \<Rightarrow> failure option \<times> RwTx \<times> TxPool" where
  "flushLocked_deleted i [] tx p = (None, tx, p)"
| "flushLocked_deleted i (None # rest) tx p = (Some PanicNilDereference, tx, p)"
| "flushLocked_deleted i (Some mt # rest) tx p =
     (let sid = TxSlot.senderID (Tx (store p mt));
          idHash = IdHash (Tx (store p mt));
          sc = senders p;
          p1 = (if \<not> BySenderAndNonce_hasTxs sid (all p)
                then (case senderID2Addr sc sid of
                        Some addr \<Rightarrow>
                          p\<lparr>senders := sc\<lparr>senderID2Addr := (senderID2Addr sc)(sid := None),
                                           senderIDs := filter (\<lambda>e. fst e \<noteq> addr) (senderIDs sc)\<rparr>\<rparr>
                      | None \<Rightarrow> p)
                else p)
      in case tx_Has_PoolTransaction idHash tx of
           Inl e \<Rightarrow> (Some e, tx, p1)
         | Inr (has, tx1) \<Rightarrow>
             (case (if has then tx_Delete_PoolTransaction idHash tx1 else Inr tx1) of
                Inl e \<Rightarrow> (Some e, tx1, p1)
              | Inr tx2 \<Rightarrow>
                  flushLocked_deleted (Suc i) rest tx2 (p1\<lparr>deletedTxs := (deletedTxs p1)[i := None]\<rparr>)))"

fun flushLocked_locals :: "nat \<Rightarrow> bytes list \<Rightarrow> RwTx \<Rightarrow> failure + RwTx" where
  "flushLocked_locals i [] tx = Inr tx"
| "flushLocked_locals i (txHash # rest) tx =
     bindF (tx_Append_RecentLocalTransaction (be64 (of_nat i)) txHash tx)
       (\<lambda>tx1. flushLocked_locals (Suc i) rest tx1)"

text \<open>
  The loop over \<open>byHash\<close>: \<open>v\<close> is the buffer of 20 address bytes and the encoded
  transaction; \<open>addr20\<close> is what its first 20 bytes hold, which a sender missing from
  \<open>senderIDs\<close> leaves as they were.
\<close>

fun flushLocked_byHash :: "bytes \<Rightarrow> (bytes \<times> ptr) list \<Rightarrow> RwTx \<Rightarrow> TxPool \<Rightarrow> failure option \<times> RwTx \<times> TxPool" where
  "flushLocked_byHash addr20 [] tx p = (None, tx, p)"
| "flushLocked_byHash addr20 ((txHash, mt) # rest) tx p =
     (case rlp (Tx (store p mt)) of
        None \<Rightarrow> flushLocked_byHash addr20 rest tx p
      | Some enc \<Rightarrow>
          (let addr = (case filter (\<lambda>e. snd e = TxSlot.senderID (Tx (store p mt))) (senderIDs (senders p)) of
                         [] \<Rightarrow> addr20
                       | e # _ \<Rightarrow> take 20 (fst e) @ drop (length (fst e)) addr20);
               v = addr @ enc
           in case tx_Has_PoolTransaction txHash tx of
                Inl e \<Rightarrow> (Some e, tx, p)
              | Inr (has, tx1) \<Rightarrow>
                  (case (if \<not> has then tx_Put_PoolTransaction txHash v tx1 else Inr tx1) of
                     Inl e \<Rightarrow> (Some e, tx1, p)
                   | Inr tx2 \<Rightarrow>
                       flushLocked_byHash addr rest tx2
                         (setMeta mt (\<lambda>x. x\<lparr>Tx := (Tx x)\<lparr>rlp := None\<rparr>\<rparr>) p))))"

definition flushLocked :: "RwTx \<Rightarrow> TxPool \<Rightarrow> failure option \<times> RwTx \<times> TxPool" where
  "flushLocked tx p =
     (case flushLocked_deleted 0 (deletedTxs p) tx p of
        (Some e, tx1, p1) \<Rightarrow> (Some e, tx1, p1)
      | (None, tx1, p1) \<Rightarrow>
          (case bindF (tx_ClearBucket_RecentLocalTransaction tx1)
                  (\<lambda>tx2. flushLocked_locals 0 (LRU_Keys (isLocalLRU p1)) tx2) of
             Inl e \<Rightarrow> (Some e, tx1, p1)
           | Inr tx3 \<Rightarrow>
               (case flushLocked_byHash (replicate 20 0) (byHash p1) tx3 p1 of
                  (Some e, tx4, p2) \<Rightarrow> (Some e, tx4, p2)
                | (None, tx4, p2) \<Rightarrow>
                    (case bindF (tx_Put_PoolInfo PoolPendingBaseFeeKey (be64 (TxPool.pendingBaseFee p2)) tx4)
                            (\<lambda>tx5. tx_Put_PoolInfo PoolLastSeenBlockKey (be64 (lastSeenBlock p2)) tx5) of
                       Inl e \<Rightarrow> (Some e, tx4, p2)
                     | Inr tx6 \<Rightarrow> (None, tx6, p2\<lparr>deletedTxs := []\<rparr>)))))"

text \<open>
  \<open>flush\<close> (pool.go, lines 1399-1418): \<open>db.Update\<close> runs the callback in a write
  transaction and commits when the callback returns \<open>nil\<close>; otherwise, and when the
  commit fails, the database keeps its old content.  The result is \<open>(written, err)\<close>,
  the database and the pool.
\<close>

definition flush :: "DB \<Rightarrow> nat option \<Rightarrow> TxPool \<Rightarrow> (failure + u64) \<times> DB \<times> TxPool" where
  "flush db fault p =
     (case flushLocked \<lparr>buckets = db, ops = 0, failAt = fault\<rparr> p of
        (Some e, tx1, p1) \<Rightarrow> (Inl e, db, p1)
      | (None, tx1, p1) \<Rightarrow>
          (case tx_SpaceDirty tx1 of
             Inl e \<Rightarrow> (Inl e, db, p1)
           | Inr (written, tx2) \<Rightarrow>
               (case tx_Commit tx2 of
                  Inl e \<Rightarrow> (Inl e, db, p1)
                | Inr db' \<Rightarrow> (Inr written, db', p1))))"

section \<open>Example pools\<close>






section \<open>The nonce index as a sorted list\<close>

text \<open>
  \<open>senderEntries\<close> are the objects of one sender in index order (ascending nonce).  On a
  sorted index the two iterators visit exactly them, \<open>ascend\<close> in this order and \<open>descend\<close>
  in the reverse order.
\<close>

lemma sbn_irrefl: "\<not> sortByNonce_Less a a" by (simp add: sortByNonce_Less_def)
lemma sbn_trans: "sortByNonce_Less a b \<Longrightarrow> sortByNonce_Less b c \<Longrightarrow> sortByNonce_Less a c"
  by (auto simp: sortByNonce_Less_def split: if_splits)
lemma sbn_total: "\<not> sortByNonce_Less a b \<Longrightarrow> \<not> sortByNonce_Less b a \<Longrightarrow> a = b"
  by (auto simp: sortByNonce_Less_def prod_eq_iff split: if_splits)
lemma sbn_asym: "sortByNonce_Less a b \<Longrightarrow> \<not> sortByNonce_Less b a"
  using sbn_irrefl sbn_trans by blast

definition senderEntries :: "u64 \<Rightarrow> BySenderAndNonce \<Rightarrow> ptr list" where
  "senderEntries sid b = map snd (filter (\<lambda>e. fst (fst e) = sid) (tree b))"

definition tree_sorted :: "(nonce_key \<times> ptr) list \<Rightarrow> bool" where
  "tree_sorted tr = sorted_wrt sortByNonce_Less (map fst tr)"

lemma sbn_low: "sortByNonce_Less k (sid, 0) \<longleftrightarrow> fst k < sid"
  by (auto simp: sortByNonce_Less_def)


lemma sbn_fst_mono: "sortByNonce_Less a b \<Longrightarrow> fst a \<le> fst b"
  by (auto simp: sortByNonce_Less_def split: if_splits)

lemma ascend_filter:
  "tree_sorted tr \<Longrightarrow>
   takeWhile (\<lambda>e. fst (fst e) = sid) (dropWhile (\<lambda>e. fst (fst e) < sid) tr) = filter (\<lambda>e. fst (fst e) = sid) tr"
proof (induction tr)
  case Nil
  then show ?case by simp
next
  case (Cons e tr)
  have st: "tree_sorted tr" and ge: "\<forall>x\<in>set tr. fst (fst e) \<le> fst (fst x)"
    using Cons.prems sbn_fst_mono by (auto simp: tree_sorted_def)
  show ?case
  proof (cases "fst (fst e) < sid")
    case True
    then show ?thesis using Cons.IH st by simp
  next
    case False
    show ?thesis
    proof (cases "fst (fst e) = sid")
      case True
      have "\<forall>x\<in>set tr. \<not> fst (fst x) < sid" using ge True by auto
      then have "dropWhile (\<lambda>e. fst (fst e) < sid) tr = tr" by (metis dropWhile_eq_self_iff hd_in_set)
      then show ?thesis using Cons.IH st True by simp
    next
      case ne: False
      then have "\<forall>x\<in>set tr. fst (fst x) \<noteq> sid" using ge False by auto
      then have "filter (\<lambda>e. fst (fst e) = sid) tr = []" by (simp add: filter_empty_conv)
      then show ?thesis using False ne by simp
    qed
  qed
qed

lemma ascendList_eq: "tree_sorted (tree b) \<Longrightarrow> ascendList sid b = senderEntries sid b"
  by (simp add: ascendList_def senderEntries_def sbn_low ascend_filter)



section \<open>The spam limit\<close>









end
